theory Spec2Isabelle
  imports Main "HOL-Library.Sublist"
begin

section \<open>Strings and Python values\<close>

text \<open>
  Strings are lists of 8-bit characters (code points below 256). The helpers below are the
  few string operations of Python that the orchestration engine relies on:
  \<^verbatim>\<open>str.startswith\<close>, \<^verbatim>\<open>str.strip\<close>, the substring test \<^verbatim>\<open>in\<close>, \<^verbatim>\<open>str.join\<close> and the decimal
  rendering of a non-negative integer inside an f-string.
\<close>

definition newline :: string where
  "newline = [CHR 0x0A]"

definition sq :: "string \<Rightarrow> string" where
  "sq s = CHR 0x27 # s @ [CHR 0x27]"

definition startswith :: "string \<Rightarrow> string \<Rightarrow> bool" where
  "startswith s p = prefix p s"

fun py_in :: "string \<Rightarrow> string \<Rightarrow> bool" where
  "py_in sub [] = (sub = [])"
| "py_in sub (c # cs) = (prefix sub (c # cs) \<or> py_in sub cs)"

definition isspace :: "char \<Rightarrow> bool" where
  "isspace c = (let n = of_char c :: nat in
      (9 \<le> n \<and> n \<le> 13) \<or> (28 \<le> n \<and> n \<le> 32) \<or> n = 133 \<or> n = 160)"

definition strip :: "string \<Rightarrow> string" where
  "strip s = rev (dropWhile isspace (rev (dropWhile isspace s)))"

fun join :: "string \<Rightarrow> string list \<Rightarrow> string" where
  "join sep [] = []"
| "join sep [x] = x"
| "join sep (x # y # ys) = x @ sep @ join sep (y # ys)"

definition digit_char :: "nat \<Rightarrow> char" where
  "digit_char d = char_of (48 + d)"

function show_nat :: "nat \<Rightarrow> string" where
  "show_nat n = (if n < 10 then [digit_char n] else show_nat (n div 10) @ [digit_char (n mod 10)])"
  by pat_completeness auto
termination
  by (relation "measure id") auto

text \<open>
  Context and configuration dictionaries hold arbitrary Python objects. The engine only ever
  tests such a value for truthiness, compares it with a string constant, formats it into a
  message, or hands it to a collaborator; so a value is \<^verbatim>\<open>None\<close>, a string, or any other
  object, which is represented by its \<^verbatim>\<open>str()\<close> rendering and its truth value.
\<close>

datatype pyval = PNone | PStr string | PObj string bool

fun truthy :: "pyval \<Rightarrow> bool" where
  "truthy PNone = False"
| "truthy (PStr s) = (s \<noteq> [])"
| "truthy (PObj s b) = b"

fun py_str :: "pyval \<Rightarrow> string" where
  "py_str PNone = ''None''"
| "py_str (PStr s) = s"
| "py_str (PObj s b) = s"

definition py_or :: "pyval \<Rightarrow> pyval \<Rightarrow> pyval" where
  "py_or v d = (if truthy v then v else d)"

type_synonym pydict = "string \<rightharpoonup> pyval"

definition dict_get :: "pydict \<Rightarrow> string \<Rightarrow> pyval \<Rightarrow> pyval" where
  "dict_get d k dflt = (case d k of None \<Rightarrow> dflt | Some v \<Rightarrow> v)"

section \<open>Exceptions, effects and streams\<close>

text \<open>
  An exception is its class (the handlers of the test agent tell \<^verbatim>\<open>ValueError\<close> and
  \<^verbatim>\<open>KeyError\<close> from the rest; \<^verbatim>\<open>RecursionError\<close> is what the interpreter raises at its
  recursion limit) and its \<^verbatim>\<open>str()\<close> message. What an agent does besides computing is recorded as
  a trace of events: a chunk yielded on its stream, a message sent straight to the
  client through the websocket manager, and a write or an update of an artifact in
  storage. A computation that may raise returns the events it produced and then either an
  exception or a value.
\<close>

datatype exn_class = ValueError | KeyError | IOError | RecursionError | OtherError

datatype exn = Exn exn_class string

fun exn_str :: "exn \<Rightarrow> string" where
  "exn_str (Exn c m) = m"

fun exn_cls :: "exn \<Rightarrow> exn_class" where
  "exn_cls (Exn c m) = c"

datatype event =
    Yield string
  | Send string
  | WriteFile pyval string pyval
  | UpdateFile pyval string string

type_synonym 'a act = "event list \<times> (exn + 'a)"

definition ret :: "'a \<Rightarrow> 'a act" where
  "ret x = ([], Inr x)"

definition py_raise :: "exn \<Rightarrow> 'a act" where
  "py_raise e = ([], Inl e)"

definition lift :: "exn + 'a \<Rightarrow> 'a act" where
  "lift r = ([], r)"

definition emit :: "event \<Rightarrow> unit act" where
  "emit ev = ([ev], Inr ())"

definition bind :: "'a act \<Rightarrow> ('a \<Rightarrow> 'b act) \<Rightarrow> 'b act" where
  "bind m f = (case m of
      (evs, Inl e) \<Rightarrow> (evs, Inl e)
    | (evs, Inr x) \<Rightarrow> (case f x of (evs', r) \<Rightarrow> (evs @ evs', r)))"

text \<open>
  The outcome of consuming a stream: it ended, it raised to its consumer, or it never ends.
  The streams of the six agents always end or raise (see \<open>fix_run\<close> below); the third
  outcome is there for the orchestrator, whose operations are stated for any stream.
\<close>

datatype outcome = Completed | Raised exn | Unfinished

text \<open>The chunk wire tagging: a progress chunk is \<^verbatim>\<open>STREAM_CHUNK:<agentName>:<message>\n\<close>.\<close>

definition progress :: "string \<Rightarrow> string \<Rightarrow> string" where
  "progress nm msg = ''STREAM_CHUNK:'' @ nm @ '':'' @ msg @ newline"

definition is_progress :: "string \<Rightarrow> bool" where
  "is_progress chunk = startswith chunk ''STREAM_CHUNK:''"

section \<open>Agents and their collaborators\<close>

datatype agent_kind = CodeGen | Doc | Fix | Planner | Qa | Test

record agent =
  kind :: agent_kind
  name :: string
  config :: pydict
  websocket_manager :: bool

record violation =
  rule_name :: string
  message :: string

record step =
  step_name :: "string option"
  step_agent :: "string option"
  step_task :: "string option"

text \<open>
  The base class of the agents (\<^verbatim>\<open>agents/agent_base.py\<close>) and the telemetry decorator are not
  among the sources. The methods of the base class that the agents call are therefore
  parameters of the model, gathered in one record; each may raise. The LLM call is a stream:
  the chunks it delivers, and the exception that ends it if there is one. The decorator is
  taken to hand the stream of \<^verbatim>\<open>run\<close> through unchanged. \<open>str_dict\<close> and \<open>repr_workflow\<close>
  stand for Python's rendering of a dictionary and of a workflow.
\<close>

record env =
  agent_base_init :: "agent \<Rightarrow> exn option"
  update_context :: "agent \<Rightarrow> pydict \<Rightarrow> exn option"
  construct_prompt :: "agent \<Rightarrow> pyval \<Rightarrow> (string \<times> pyval) list \<Rightarrow> exn + string"
  execute_llm_workflow :: "agent \<Rightarrow> string \<Rightarrow> string \<Rightarrow> pydict \<Rightarrow> string list \<times> exn option"
  enforce_agent_rules :: "agent \<Rightarrow> string \<Rightarrow> string \<Rightarrow> pydict \<Rightarrow> exn + violation list"
  read_gdrive_file :: "agent \<Rightarrow> pyval \<Rightarrow> string \<Rightarrow> string \<Rightarrow> pydict \<Rightarrow> exn + pyval"
  write_gdrive_file :: "agent \<Rightarrow> pyval \<Rightarrow> string \<Rightarrow> pyval \<Rightarrow> exn + pyval"
  update_gdrive_file :: "agent \<Rightarrow> pyval \<Rightarrow> string \<Rightarrow> string \<Rightarrow> exn + bool"
  str_dict :: "pydict \<Rightarrow> string"
  repr_workflow :: "step list \<Rightarrow> string"

subsection \<open>The steps every lifecycle shares\<close>

text \<open>
  Each agent repeats the same lines to buffer the LLM stream
  (\<^verbatim>\<open>full_response += chunk\<close>), to validate the buffered response and to enforce the rules.
\<close>

definition buffer_llm :: "env \<Rightarrow> agent \<Rightarrow> string \<Rightarrow> string \<Rightarrow> pydict \<Rightarrow> string act" where
  "buffer_llm e ag prompt task ctx =
     (case execute_llm_workflow e ag prompt task ctx of
        (chunks, None) \<Rightarrow> ret (concat chunks)
      | (chunks, Some ex) \<Rightarrow> py_raise ex)"

definition response_invalid :: "string \<Rightarrow> bool" where
  "response_invalid full_response = (strip full_response = [] \<or> py_in ''[ERROR]'' full_response)"

definition violation_details :: "violation list \<Rightarrow> string" where
  "violation_details vs = join ''; '' (map (\<lambda>v. rule_name v @ '': '' @ message v) vs)"

definition validate_response :: "env \<Rightarrow> agent \<Rightarrow> string \<Rightarrow> string \<Rightarrow> pydict \<Rightarrow> unit act" where
  "validate_response e ag full_response task ctx =
     (if response_invalid full_response
      then py_raise (Exn ValueError ''LLM response was empty or contained an error.'')
      else bind (lift (enforce_agent_rules e ag full_response task ctx)) (\<lambda>rule_violations.
           if rule_violations \<noteq> []
           then py_raise (Exn ValueError
                  (''Agent-specific rules violated: '' @ violation_details rule_violations))
           else ret ()))"

definition say :: "agent \<Rightarrow> string \<Rightarrow> unit act" where
  "say ag msg = emit (Yield (progress (name ag) msg))"

definition tag :: "agent \<Rightarrow> string" where
  "tag ag = ''['' @ name ag @ '']''"

datatype file_op = CreateOp pyval pyval | UpdateOp pyval

definition write_file :: "env \<Rightarrow> agent \<Rightarrow> pyval \<Rightarrow> string \<Rightarrow> pyval \<Rightarrow> pyval act" where
  "write_file e ag filename content parent =
     bind (emit (WriteFile filename content parent)) (\<lambda>_.
     lift (write_gdrive_file e ag filename content parent))"

definition update_file :: "env \<Rightarrow> agent \<Rightarrow> pyval \<Rightarrow> string \<Rightarrow> string \<Rightarrow> bool act" where
  "update_file e ag file_id content what =
     bind (emit (UpdateFile file_id content what)) (\<lambda>_.
     lift (update_gdrive_file e ag file_id content what))"

definition read_file :: "env \<Rightarrow> agent \<Rightarrow> pyval \<Rightarrow> string \<Rightarrow> string \<Rightarrow> pydict \<Rightarrow> pyval act" where
  "read_file e ag file_id what task ctx = lift (read_gdrive_file e ag file_id what task ctx)"

definition persist :: "env \<Rightarrow> agent \<Rightarrow> bool \<Rightarrow> file_op \<Rightarrow> string \<Rightarrow> string \<Rightarrow> pyval act" where
  "persist e ag create details full_response what =
     (if create
      then (case details of
              CreateOp filename parent \<Rightarrow> write_file e ag filename full_response parent
            | UpdateOp file_id \<Rightarrow> py_raise (Exn KeyError (sq ''filename'')))
      else (case details of
              UpdateOp file_id \<Rightarrow>
                bind (update_file e ag file_id full_response what) (\<lambda>success.
                ret (if success then file_id else PNone))
            | CreateOp filename parent \<Rightarrow> py_raise (Exn KeyError (sq ''file_id''))))"

definition output_location :: "pydict \<Rightarrow> string \<Rightarrow> file_op act" where
  "output_location ctx default_filename =
     (let output_filename = dict_get ctx ''output_filename'' (PStr default_filename);
          parent_folder_id = dict_get ctx ''parent_folder_id'' PNone
      in if \<not> truthy parent_folder_id
         then py_raise (Exn ValueError ''Missing 'parent_folder_id' in context for saving output.'')
         else ret (CreateOp output_filename parent_folder_id))"

subsection \<open>CodeGenAgent\<close>

definition codegen_body :: "env \<Rightarrow> agent \<Rightarrow> string \<Rightarrow> pydict \<Rightarrow> unit act" where
  "codegen_body e ag task ctx =
     bind (lift (construct_prompt e ag
              (dict_get (config ag) ''codegen_template'' (PStr ''base_codegen_prompt.txt''))
              [(''task'', PStr task),
               (''current_context'', dict_get ctx ''current_context'' (PStr [])),
               (''requirements'', dict_get ctx ''requirements'' (PStr [])),
               (''language'', dict_get ctx ''language'' (PStr ''Python'')),
               (''file_to_modify'', dict_get ctx ''file_to_modify'' (PStr []))])) (\<lambda>prompt.
     bind (say ag (tag ag @ '' Generating code...'')) (\<lambda>_.
     bind (buffer_llm e ag prompt task ctx) (\<lambda>full_response.
     bind (say ag (tag ag @ '' Validating response...'')) (\<lambda>_.
     bind (validate_response e ag full_response task ctx) (\<lambda>_.
     bind (say ag (tag ag @ '' Validation passed. Streaming now...'')) (\<lambda>_.
     bind (emit (Yield full_response)) (\<lambda>_.
     say ag (''[SUCCESS] '' @ tag ag @ '' Task completed successfully.''))))))))"

subsection \<open>DocAgent\<close>

definition doc_prepare :: "env \<Rightarrow> agent \<Rightarrow> string \<Rightarrow> pydict \<Rightarrow> pyval \<Rightarrow> (string \<times> file_op) act" where
  "doc_prepare e ag task ctx operation_type =
     (if operation_type = PStr ''generate_new'' then
        (let gdrive_file_id = dict_get ctx ''gdrive_file_id'' PNone in
         if \<not> truthy gdrive_file_id
         then py_raise (Exn ValueError ''Missing 'gdrive_file_id' in context for generate operation.'')
         else
           bind (read_file e ag gdrive_file_id ''code file'' task ctx) (\<lambda>r1.
           bind (if truthy (dict_get ctx ''existing_docs_file_id'' PNone)
                 then bind (read_file e ag (dict_get ctx ''existing_docs_file_id'' PNone)
                              ''existing documentation'' task ctx) (\<lambda>r2. ret (py_or r2 (PStr [])))
                 else ret (PStr [])) (\<lambda>existing_docs_content.
           bind (output_location ctx ''documentation.md'') (\<lambda>file_op_details.
           bind (lift (construct_prompt e ag
                   (dict_get (config ag) ''generate_template'' (PStr ''doc_agent_generate.txt''))
                   [(''task'', PStr task),
                    (''code_to_document'', py_or r1 (PStr [])),
                    (''existing_documentation'', existing_docs_content)])) (\<lambda>prompt.
           ret (prompt, file_op_details))))))
      else if operation_type = PStr ''update_existing'' then
        (let existing_docs_file_id = dict_get ctx ''existing_docs_file_id'' PNone in
         if \<not> truthy existing_docs_file_id
         then py_raise (Exn ValueError ''Missing 'existing_docs_file_id' for update operation.'')
         else
           bind (read_file e ag existing_docs_file_id ''existing documentation'' task ctx) (\<lambda>r1.
           bind (if truthy (dict_get ctx ''source_code_file_id'' PNone)
                 then bind (read_file e ag (dict_get ctx ''source_code_file_id'' PNone)
                              ''source code'' task ctx) (\<lambda>r2. ret (py_or r2 (PStr [])))
                 else ret (PStr [])) (\<lambda>source_code_content.
           bind (lift (construct_prompt e ag
                   (dict_get (config ag) ''update_template'' (PStr ''doc_agent_update.txt''))
                   [(''task'', PStr task),
                    (''existing_documentation'', py_or r1 (PStr [])),
                    (''source_code'', source_code_content),
                    (''update_instructions'', dict_get ctx ''update_instructions''
                        (PStr ''Update and improve the existing documentation.''))])) (\<lambda>prompt.
           ret (prompt, UpdateOp existing_docs_file_id)))))
      else py_raise (Exn ValueError (''Unknown operation type: '' @ py_str operation_type)))"

definition doc_body :: "env \<Rightarrow> agent \<Rightarrow> string \<Rightarrow> pydict \<Rightarrow> unit act" where
  "doc_body e ag task ctx =
     (let operation_type = dict_get ctx ''operation_type'' (PStr ''generate_new'') in
      bind (say ag (tag ag @ '' Preparing data for operation: '' @ py_str operation_type @ ''...'')) (\<lambda>_.
      bind (doc_prepare e ag task ctx operation_type) (\<lambda>(prompt, file_operation_details).
      bind (say ag (tag ag @ '' Generating documentation...'')) (\<lambda>_.
      bind (buffer_llm e ag prompt task ctx) (\<lambda>full_response.
      bind (say ag (tag ag @ '' Validating response...'')) (\<lambda>_.
      bind (validate_response e ag full_response task ctx) (\<lambda>_.
      bind (say ag (tag ag @ '' Validation passed. Saving to Google Drive...'')) (\<lambda>_.
      bind (persist e ag (operation_type = PStr ''generate_new'') file_operation_details
              full_response ''documentation'') (\<lambda>file_id.
      if \<not> truthy file_id
      then py_raise (Exn IOError ''Failed to save the generated documentation to Google Drive.'')
      else
        bind (emit (Yield full_response)) (\<lambda>_.
        say ag (''[SUCCESS] '' @ tag ag @ '' Task completed. Documentation saved to GDrive file ID: ''
                 @ py_str file_id)))))))))))"

subsection \<open>FixAgent\<close>

definition fix_prepare :: "env \<Rightarrow> agent \<Rightarrow> string \<Rightarrow> pydict \<Rightarrow> pyval \<Rightarrow> (string \<times> file_op) act" where
  "fix_prepare e ag task ctx operation_type =
     (if operation_type = PStr ''fix_and_create'' then
        (let gdrive_file_id = dict_get ctx ''gdrive_file_id'' PNone in
         if \<not> truthy gdrive_file_id
         then py_raise (Exn ValueError ''Missing 'gdrive_file_id' in context for create operation.'')
         else
           bind (read_file e ag gdrive_file_id ''code file'' task ctx) (\<lambda>r1.
           bind (if truthy (dict_get ctx ''bug_report_file_id'' PNone)
                 then bind (read_file e ag (dict_get ctx ''bug_report_file_id'' PNone)
                              ''bug report'' task ctx) (\<lambda>r2. ret (py_or r2 (PStr [])))
                 else ret (PStr [])) (\<lambda>bug_report_content.
           bind (output_location ctx ''fixed_code.py'') (\<lambda>file_op_details.
           bind (lift (construct_prompt e ag
                   (dict_get (config ag) ''create_template'' (PStr ''fix_agent_create.txt''))
                   [(''task'', PStr task),
                    (''code_to_fix'', py_or r1 (PStr [])),
                    (''bug_report'', bug_report_content)])) (\<lambda>prompt.
           ret (prompt, file_op_details))))))
      else if operation_type = PStr ''update_existing'' then
        (let existing_file_id = dict_get ctx ''existing_file_id'' PNone in
         if \<not> truthy existing_file_id
         then py_raise (Exn ValueError ''Missing 'existing_file_id' for update operation.'')
         else
           bind (read_file e ag existing_file_id ''existing code file'' task ctx) (\<lambda>r1.
           bind (lift (construct_prompt e ag
                   (dict_get (config ag) ''update_template'' (PStr ''fix_agent_update.txt''))
                   [(''task'', PStr task),
                    (''existing_code'', py_or r1 (PStr [])),
                    (''error_description'', dict_get ctx ''error_description''
                        (PStr ''No specific error description provided.'')),
                    (''patch_instructions'', dict_get ctx ''patch_instructions'' (PStr []))])) (\<lambda>prompt.
           ret (prompt, UpdateOp existing_file_id))))
      else py_raise (Exn ValueError (''Unknown operation type: '' @ py_str operation_type)))"

definition fix_body :: "env \<Rightarrow> agent \<Rightarrow> string \<Rightarrow> pydict \<Rightarrow> unit act" where
  "fix_body e ag task ctx =
     (let operation_type = dict_get ctx ''operation_type'' (PStr ''fix_and_create'') in
      bind (say ag (tag ag @ '' Preparing data for operation: '' @ py_str operation_type @ ''...'')) (\<lambda>_.
      bind (fix_prepare e ag task ctx operation_type) (\<lambda>(prompt, file_op_details).
      bind (say ag (tag ag @ '' Generating fixed code...'')) (\<lambda>_.
      bind (buffer_llm e ag prompt task ctx) (\<lambda>full_response.
      bind (say ag (tag ag @ '' Validating response...'')) (\<lambda>_.
      bind (validate_response e ag full_response task ctx) (\<lambda>_.
      bind (say ag (tag ag @ '' Validation passed. Saving to Google Drive...'')) (\<lambda>_.
      bind (persist e ag (operation_type = PStr ''fix_and_create'') file_op_details
              full_response ''fixed code'') (\<lambda>file_id.
      if \<not> truthy file_id
      then py_raise (Exn IOError ''Failed to save the fixed code to Google Drive.'')
      else
        bind (emit (Yield full_response)) (\<lambda>_.
        say ag (''[SUCCESS] '' @ tag ag @ '' Task completed. Fixed code saved to GDrive file ID: ''
                 @ py_str file_id)))))))))))"

subsection \<open>PlannerAgent\<close>

definition planner_body :: "env \<Rightarrow> agent \<Rightarrow> string \<Rightarrow> pydict \<Rightarrow> unit act" where
  "planner_body e ag task ctx =
     bind (say ag (tag ag @ '' Constructing prompt...'')) (\<lambda>_.
     bind (lift (construct_prompt e ag
              (dict_get (config ag) ''template'' (PStr ''planner_template.txt''))
              [(''task'', PStr task),
               (''context_summary'', PStr (str_dict e ctx)),
               (''planning_level'', dict_get ctx ''level'' (PStr ''high-level''))])) (\<lambda>prompt.
     bind (say ag (tag ag @ '' Generating plan...'')) (\<lambda>_.
     bind (buffer_llm e ag prompt task ctx) (\<lambda>full_response.
     bind (say ag (tag ag @ '' Validating plan...'')) (\<lambda>_.
     bind (validate_response e ag full_response task ctx) (\<lambda>_.
     bind (say ag (tag ag @ '' Validation passed. Saving plan to Google Drive...'')) (\<lambda>_.
     bind (output_location ctx ''plan.md'') (\<lambda>file_op_details.
     bind (persist e ag True file_op_details full_response []) (\<lambda>file_id.
     if \<not> truthy file_id
     then py_raise (Exn IOError ''Failed to save the plan to Google Drive.'')
     else
       bind (emit (Yield full_response)) (\<lambda>_.
       say ag (''[SUCCESS] '' @ tag ag @ '' Plan saved to GDrive file ID: '' @ py_str file_id)))))))))))"

subsection \<open>QaAgent\<close>

definition qa_code_to_analyze ::
  "env \<Rightarrow> agent \<Rightarrow> string \<Rightarrow> pydict \<Rightarrow> string \<Rightarrow> (string \<times> pyval) list act" where
  "qa_code_to_analyze e ag task ctx missing =
     (let gdrive_file_id = dict_get ctx ''gdrive_file_id'' PNone in
      if \<not> truthy gdrive_file_id then py_raise (Exn ValueError missing)
      else bind (read_file e ag gdrive_file_id ''code file'' task ctx) (\<lambda>r.
           ret [(''task'', PStr task), (''code_to_analyze'', py_or r (PStr []))]))"

definition qa_optional_read :: "env \<Rightarrow> agent \<Rightarrow> pyval \<Rightarrow> string \<Rightarrow> string \<Rightarrow> pydict \<Rightarrow> pyval act" where
  "qa_optional_read e ag file_id what task ctx =
     (if truthy file_id
      then bind (read_file e ag file_id what task ctx) (\<lambda>r. ret (py_or r (PStr [])))
      else ret (PStr []))"

definition qa_prepare ::
  "env \<Rightarrow> agent \<Rightarrow> string \<Rightarrow> pydict \<Rightarrow> pyval \<Rightarrow> (string \<times> file_op option) act" where
  "qa_prepare e ag task ctx operation_type =
     bind
       (if operation_type = PStr ''answer_with_context'' then
          bind (qa_code_to_analyze e ag task ctx ''Missing 'gdrive_file_id' in context.'')
            (\<lambda>template_data. ret (dict_get (config ag) ''answer_with_context_template''
                (PStr ''qa_agent_answer_with_context.txt''), template_data))
        else if operation_type = PStr ''answer_without_context'' then
          ret (dict_get (config ag) ''answer_without_context_template''
                (PStr ''qa_agent_answer_without_context.txt''), [(''task'', PStr task)])
        else if operation_type = PStr ''generate_qa_pairs'' then
          bind (qa_code_to_analyze e ag task ctx
                  ''Missing 'gdrive_file_id' for generating QA pairs.'')
            (\<lambda>template_data. ret (dict_get (config ag) ''generate_qa_pairs_template''
                (PStr ''qa_agent_generate_qa_pairs.txt''), template_data))
        else if operation_type = PStr ''review_requirements'' then
          bind (qa_optional_read e ag (dict_get ctx ''requirements_file_id'' PNone)
                  ''requirements file'' task ctx) (\<lambda>requirements.
          bind (qa_optional_read e ag (dict_get ctx ''test_results_file_id'' PNone)
                  ''test results file'' task ctx) (\<lambda>test_results.
          ret (dict_get (config ag) ''review_requirements_template''
                (PStr ''qa_agent_review_requirements.txt''),
               [(''task'', PStr task), (''requirements'', requirements),
                (''test_results'', test_results)])))
        else if operation_type = PStr ''generate_qa_report'' then
          bind (qa_code_to_analyze e ag task ctx
                  ''Missing 'gdrive_file_id' for generating QA report.'')
            (\<lambda>template_data. ret (dict_get (config ag) ''generate_qa_report_template''
                (PStr ''qa_agent_generate_qa_report.txt''), template_data))
        else py_raise (Exn ValueError (''Unknown operation type: '' @ py_str operation_type)))
       (\<lambda>(template_name, template_data).
     bind
       (if operation_type \<noteq> PStr ''answer_without_context''
        then bind (output_location ctx (py_str operation_type @ ''_output.md''))
               (\<lambda>details. ret (Some details))
        else ret None) (\<lambda>file_op_details.
     bind (lift (construct_prompt e ag template_name template_data)) (\<lambda>prompt.
     ret (prompt, file_op_details))))"

definition qa_body :: "env \<Rightarrow> agent \<Rightarrow> string \<Rightarrow> pydict \<Rightarrow> unit act" where
  "qa_body e ag task ctx =
     (let operation_type = dict_get ctx ''operation_type'' (PStr ''answer_with_context'') in
      bind (say ag (tag ag @ '' Preparing data for operation: '' @ py_str operation_type @ ''...'')) (\<lambda>_.
      bind (qa_prepare e ag task ctx operation_type) (\<lambda>(prompt, file_op_details).
      bind (say ag (tag ag @ '' Generating QA response...'')) (\<lambda>_.
      bind (buffer_llm e ag prompt task ctx) (\<lambda>full_response.
      bind (say ag (tag ag @ '' Validating response...'')) (\<lambda>_.
      bind (validate_response e ag full_response task ctx) (\<lambda>_.
      bind
        (case file_op_details of
           Some details \<Rightarrow>
             bind (say ag (tag ag @ '' Validation passed. Saving to Google Drive...'')) (\<lambda>_.
             bind (persist e ag True details full_response []) (\<lambda>file_id.
             if \<not> truthy file_id
             then py_raise (Exn IOError ''Failed to save the QA output to Google Drive.'')
             else ret (''[SUCCESS] '' @ tag ag @ '' Task completed. Output saved to GDrive file ID: ''
                        @ py_str file_id)))
         | None \<Rightarrow> ret (''[SUCCESS] '' @ tag ag @ '' Task completed successfully.'')) (\<lambda>success_msg.
      bind (emit (Yield full_response)) (\<lambda>_.
      say ag success_msg)))))))))"

subsection \<open>The self-correction coordinator and the Fix agent's run\<close>

text \<open>
  \<^verbatim>\<open>agent_self_correct\<close> builds a Fix agent under the failing agent's name and
  configuration and forwards its stream; the handler of \<^verbatim>\<open>FixAgent.run\<close> calls
  \<^verbatim>\<open>agent_self_correct\<close> again. The source passes no counter along this chain; what bounds
  it is the interpreter. Every nested Fix agent adds the frames of two generators to the
  stack of the consumer, and the interpreter raises \<^verbatim>\<open>RecursionError\<close> when its recursion
  limit is reached. The parameter \<open>n\<close> is that limit, counted in nested Fix agents: the number
  of Fix agents that can still be resumed below the current one. Resuming a Fix agent when
  none is left raises \<^verbatim>\<open>RecursionError\<close> to the \<^verbatim>\<open>async for\<close> of the coordinator that
  built it, before that agent's first chunk; the coordinator's \<^verbatim>\<open>except Exception\<close> catches
  it like any other exception of the Fix agent's stream. (Where exactly within the innermost
  frames the interpreter gives up depends on its version; the message is that of CPython.)
\<close>

definition fix_task_of :: "env \<Rightarrow> agent \<Rightarrow> string \<Rightarrow> pydict \<Rightarrow> string \<Rightarrow> string \<Rightarrow> string \<Rightarrow> string" where
  "fix_task_of e ag original_task current_context error_details error_type correction_guidance =
     ''The '' @ sq (name ag) @ '' agent failed on the task: '' @ sq original_task @ ''.'' @ newline
     @ ''Error Type: '' @ error_type @ newline
     @ ''Error Details: '' @ error_details @ newline
     @ ''Original Context: '' @ str_dict e current_context @ newline
     @ (if correction_guidance \<noteq> []
        then ''Correction Guidance: '' @ correction_guidance @ newline else [])
     @ ''Please analyze the error and provide a corrected response or solution.''"

definition critical :: "agent \<Rightarrow> exn \<Rightarrow> event" where
  "critical ag ex = Yield (progress (name ag)
     (''[ERROR] A critical error occurred during the self-correction process: '' @ exn_str ex))"

definition guarded ::
  "env \<Rightarrow> agent \<Rightarrow> pydict \<Rightarrow> string \<Rightarrow> unit act \<Rightarrow> (exn \<Rightarrow> event list \<times> outcome)
     \<Rightarrow> event list \<times> outcome" where
  "guarded e ag ctx log_message body handler =
     (case update_context e ag ctx of
        Some ex \<Rightarrow> ([], Raised ex)
      | None \<Rightarrow>
          (case body of
             (evs, Inr u) \<Rightarrow> (Yield (progress (name ag) log_message) # evs, Completed)
           | (evs, Inl ex) \<Rightarrow>
               (case handler ex of (evs', out) \<Rightarrow>
                  (Yield (progress (name ag) log_message) # evs
                     @ Yield (progress (name ag)
                         (tag ag @ '' Self-correction triggered due to error: '' @ exn_str ex))
                     # evs', out))))"

fun agent_self_correct ::
      "nat \<Rightarrow> env \<Rightarrow> agent \<Rightarrow> string \<Rightarrow> pydict \<Rightarrow> string \<Rightarrow> string \<Rightarrow> string \<Rightarrow> event list \<times> outcome"
  and fix_run :: "nat \<Rightarrow> env \<Rightarrow> agent \<Rightarrow> string \<Rightarrow> pydict \<Rightarrow> event list \<times> outcome"
where
  "agent_self_correct n e ag original_task current_context error_details error_type
      correction_guidance =
     (let first = Yield (progress (name ag)
             (''[INFO] Initiating self-correction for '' @ name ag @ '' due to '' @ error_type
                @ ''. Error: '' @ error_details));
          fix_task = fix_task_of e ag original_task current_context error_details error_type
                       correction_guidance;
          fix_agent = ag\<lparr>kind := Fix\<rparr>
      in case agent_base_init e fix_agent of
           Some ex \<Rightarrow> ([first, critical ag ex], Completed)
         | None \<Rightarrow>
             (case fix_run n e fix_agent fix_task current_context of
                (evs, Completed) \<Rightarrow>
                  (first # evs @ [Yield (progress (name ag)
                      (''[INFO] Self-correction attempt for '' @ name ag @ '' completed.''))],
                   Completed)
              | (evs, Raised ex) \<Rightarrow> (first # evs @ [critical ag ex], Completed)
              | (evs, Unfinished) \<Rightarrow> (first # evs, Unfinished)))"
| "fix_run 0 e ag task ctx = ([], Raised (Exn RecursionError ''maximum recursion depth exceeded''))"
| "fix_run (Suc n) e ag task ctx =
     guarded e ag ctx (tag ag @ '' Starting code fixing task: '' @ task) (fix_body e ag task ctx)
       (\<lambda>ex. agent_self_correct n e ag task ctx (exn_str ex) ''agent_execution_error''
          ''The agent failed during code fixing or validation. Analyze the error and context to provide a fix.'')"

definition codegen_run :: "nat \<Rightarrow> env \<Rightarrow> agent \<Rightarrow> string \<Rightarrow> pydict \<Rightarrow> event list \<times> outcome" where
  "codegen_run n e ag task ctx =
     guarded e ag ctx (tag ag @ '' Starting code generation task: '' @ task)
       (codegen_body e ag task ctx)
       (\<lambda>ex. agent_self_correct n e ag task ctx (exn_str ex) ''agent_execution_error''
          ''The agent failed during code generation or validation. Analyze the error and context to provide a fix.'')"

definition doc_run :: "nat \<Rightarrow> env \<Rightarrow> agent \<Rightarrow> string \<Rightarrow> pydict \<Rightarrow> event list \<times> outcome" where
  "doc_run n e ag task ctx =
     guarded e ag ctx (tag ag @ '' Starting documentation task: '' @ task)
       (doc_body e ag task ctx)
       (\<lambda>ex. agent_self_correct n e ag task ctx (exn_str ex) ''agent_execution_error''
          ''The agent failed during documentation generation or validation. Analyze the error and context to provide a fix.'')"

definition planner_run :: "nat \<Rightarrow> env \<Rightarrow> agent \<Rightarrow> string \<Rightarrow> pydict \<Rightarrow> event list \<times> outcome" where
  "planner_run n e ag task ctx =
     guarded e ag ctx (tag ag @ '' Starting planning task: '' @ task)
       (planner_body e ag task ctx)
       (\<lambda>ex. agent_self_correct n e ag task ctx (exn_str ex) ''agent_execution_error''
          ''The agent failed during planning or validation. Analyze the error and context to create a valid plan.'')"

definition qa_run :: "nat \<Rightarrow> env \<Rightarrow> agent \<Rightarrow> string \<Rightarrow> pydict \<Rightarrow> event list \<times> outcome" where
  "qa_run n e ag task ctx =
     guarded e ag ctx (tag ag @ '' Starting QA task: '' @ task)
       (qa_body e ag task ctx)
       (\<lambda>ex. agent_self_correct n e ag task ctx (exn_str ex) ''agent_execution_error''
          ''The agent failed during QA processing or validation. Analyze the error and context to provide a correct response.'')"

subsection \<open>TestAgent\<close>

text \<open>
  The test agent sends its opening progress line straight to the client (the sink is taken
  to accept every message) and yields its diagnostics without the progress tag; on an
  invalid response it calls the coordinator from inside its lifecycle and returns.
\<close>

definition forward :: "event list \<times> outcome \<Rightarrow> outcome act" where
  "forward r = (case r of
      (evs, Raised ex) \<Rightarrow> (evs, Inl ex)
    | (evs, out) \<Rightarrow> (evs, Inr out))"

definition test_prepare :: "env \<Rightarrow> agent \<Rightarrow> string \<Rightarrow> pydict \<Rightarrow> (string \<times> file_op) act" where
  "test_prepare e ag task ctx =
     (let gdrive_file_id = dict_get ctx ''gdrive_file_id'' PNone in
      if \<not> truthy gdrive_file_id
      then py_raise (Exn ValueError ''Missing 'gdrive_file_id' in context.'')
      else
        bind (read_file e ag gdrive_file_id ''code file'' task ctx) (\<lambda>gdrive_content.
        if \<not> truthy gdrive_content
        then py_raise (Exn ValueError
               (''Failed to read or empty content from GDrive file: '' @ py_str gdrive_file_id))
        else
          bind (lift (construct_prompt e ag
                  (dict_get (config ag) ''generate_template'' (PStr ''test_agent_generate.txt''))
                  [(''task'', PStr task),
                   (''code_to_test'', gdrive_content),
                   (''test_framework'', dict_get ctx ''framework'' (PStr ''pytest''))])) (\<lambda>prompt.
          bind (output_location ctx ''test_generated.py'') (\<lambda>file_op_details.
          ret (prompt, file_op_details)))))"

definition format_test_results :: "pydict \<Rightarrow> string" where
  "format_test_results ctx =
     ''# Test Execution Results'' @ newline
     @ newline
     @ ''## Summary'' @ newline
     @ ''- **Timestamp**: '' @ py_str (dict_get ctx ''timestamp'' (PStr ''Unknown'')) @ newline
     @ ''- **Framework**: '' @ py_str (dict_get ctx ''framework'' (PStr ''pytest'')) @ newline
     @ ''- **Test Suite**: '' @ py_str (dict_get ctx ''test_suite'' (PStr ''Unknown'')) @ newline
     @ newline
     @ ''## Test Summary'' @ newline
     @ py_str (dict_get ctx ''test_summary'' (PStr [])) @ newline
     @ newline
     @ ''## Detailed Results'' @ newline
     @ ''```'' @ newline
     @ py_str (dict_get ctx ''test_results'' (PStr [])) @ newline
     @ ''```'' @ newline
     @ newline
     @ ''## Recommendations'' @ newline
     @ py_str (dict_get ctx ''recommendations'' (PStr ''No specific recommendations.'')) @ newline
     @ newline
     @ ''---'' @ newline
     @ ''Generated by TestAgent - Gemini-Agent System'' @ newline"

definition test_body :: "nat \<Rightarrow> env \<Rightarrow> agent \<Rightarrow> string \<Rightarrow> pydict \<Rightarrow> pyval \<Rightarrow> outcome act" where
  "test_body n e ag task ctx operation_type =
     (if operation_type = PStr ''generate_tests'' then
        bind (test_prepare e ag task ctx) (\<lambda>(prompt, file_op_details).
        bind (buffer_llm e ag prompt task ctx) (\<lambda>full_response.
        if response_invalid full_response then
          (let error_msg = tag ag @ '' LLM workflow failed or returned empty response.'' in
           bind (emit (Yield error_msg)) (\<lambda>_.
           forward (agent_self_correct n e ag task ctx error_msg ''llm_response_error''
             ''The LLM failed to generate a valid response. Please analyze the prompt and try again.'')))
        else
          bind (lift (enforce_agent_rules e ag full_response task ctx)) (\<lambda>rule_violations.
          if rule_violations \<noteq> [] then
            (let details = violation_details rule_violations;
                 error_msg = ''[RULE_VIOLATION] '' @ tag ag
                    @ '' Agent-specific rules violated: '' @ details in
             bind (emit (Yield error_msg)) (\<lambda>_.
             forward (agent_self_correct n e ag task ctx error_msg ''rule_violation''
               (''The output violated rules: '' @ details
                  @ ''. Please regenerate the output to comply.''))))
          else
            bind (persist e ag True file_op_details full_response []) (\<lambda>file_id.
            bind (emit (Yield full_response)) (\<lambda>_.
            if truthy file_id
            then bind (emit (Yield (newline @ ''[SUCCESS] Output saved to GDrive file ID: ''
                                      @ py_str file_id))) (\<lambda>_. ret Completed)
            else ret Completed)))))
      else if operation_type = PStr ''write_test_results'' then
        bind (output_location ctx ''test_results.md'') (\<lambda>file_op_details.
        bind (persist e ag True file_op_details (format_test_results ctx) []) (\<lambda>file_id.
        bind (emit (Yield (if truthy file_id
                then newline @ ''[SUCCESS] Test results saved to GDrive file ID: '' @ py_str file_id
                else newline @ ''[ERROR] Failed to save test results to GDrive.''))) (\<lambda>_.
        ret Completed)))
      else py_raise (Exn ValueError (''Unknown operation type: '' @ py_str operation_type)))"

definition test_run :: "nat \<Rightarrow> env \<Rightarrow> agent \<Rightarrow> string \<Rightarrow> pydict \<Rightarrow> event list \<times> outcome" where
  "test_run n e ag task ctx =
     (case update_context e ag ctx of
        Some ex \<Rightarrow> ([], Raised ex)
      | None \<Rightarrow>
          (let operation_type = dict_get ctx ''operation_type'' (PStr ''generate_tests'');
               opening = (if websocket_manager ag
                  then [Send (progress (name ag)
                          (tag ag @ '' Starting operation: '' @ py_str operation_type @ ''...''))]
                  else [])
           in case test_body n e ag task ctx operation_type of
                (evs, Inr out) \<Rightarrow> (opening @ evs, out)
              | (evs, Inl ex) \<Rightarrow>
                  (if exn_cls ex = ValueError \<or> exn_cls ex = KeyError
                   then (case agent_self_correct n e ag task ctx (exn_str ex) ''validation_error''
                                ''A data validation or key error occurred. Check the context data and the agent's logic.''
                         of (evs', out) \<Rightarrow>
                           (opening @ evs
                              @ Yield (''[ERROR] '' @ tag ag @ '' Validation error: '' @ exn_str ex)
                              # evs', out))
                   else (case agent_self_correct n e ag task ctx (exn_str ex) ''unhandled_exception''
                                ''An unexpected error occurred. Analyze the stack trace and context to find the root cause.''
                         of (evs', out) \<Rightarrow>
                           (opening @ evs
                              @ Yield (''[ERROR] '' @ tag ag @ '' Unhandled exception in run: ''
                                         @ exn_str ex)
                              # evs', out)))))"

subsection \<open>Dispatch on the agent's class\<close>

definition agent_run :: "nat \<Rightarrow> env \<Rightarrow> agent \<Rightarrow> string \<Rightarrow> pydict \<Rightarrow> event list \<times> outcome" where
  "agent_run n e ag task ctx =
     (case kind ag of
        CodeGen \<Rightarrow> codegen_run n e ag task ctx
      | Doc \<Rightarrow> doc_run n e ag task ctx
      | Fix \<Rightarrow> fix_run (Suc n) e ag task ctx
      | Planner \<Rightarrow> planner_run n e ag task ctx
      | Qa \<Rightarrow> qa_run n e ag task ctx
      | Test \<Rightarrow> test_run n e ag task ctx)"

section \<open>The orchestrator\<close>

text \<open>
  \<^verbatim>\<open>self.agents\<close> is a reference to a dictionary object; the heap maps references to the
  dictionaries they denote, so that rebinding the field and mutating the object are
  different things. \<^verbatim>\<open>self.context\<close> is the instance-wide context. The operations are
  stated for any behaviour \<open>run\<close> of \<^verbatim>\<open>agent.run\<close>; \<open>agent_run n e\<close> is the behaviour of the
  six agents above.
\<close>

type_synonym registry = "string \<rightharpoonup> agent"

type_synonym ref = nat

type_synonym heap = "ref \<Rightarrow> registry"

record orchestrator =
  orch_agents :: ref
  orch_context :: pydict

definition agent_class_map :: "string \<rightharpoonup> agent_kind" where
  "agent_class_map =
     [''codegen'' \<mapsto> CodeGen, ''doc'' \<mapsto> Doc, ''fix'' \<mapsto> Fix,
      ''planner'' \<mapsto> Planner, ''qa'' \<mapsto> Qa, ''test'' \<mapsto> Test]"

fun load_loop :: "env \<Rightarrow> (string \<times> pydict) list \<Rightarrow> registry \<Rightarrow> registry" where
  "load_loop e [] reg = reg"
| "load_loop e ((agent_name, cfg) # rest) reg =
     (case agent_class_map agent_name of
        Some agent_class \<Rightarrow>
          (let a = \<lparr>kind = agent_class, name = agent_name, config = cfg,
                     websocket_manager = True\<rparr>
           in case agent_base_init e a of
                None \<Rightarrow> load_loop e rest (reg(agent_name \<mapsto> a))
              | Some ex \<Rightarrow> load_loop e rest reg)
      | None \<Rightarrow> load_loop e rest reg)"

definition load_agents :: "env \<Rightarrow> (string \<times> pydict) list \<Rightarrow> heap \<Rightarrow> orchestrator \<Rightarrow> heap" where
  "load_agents e agent_configs h orch =
     (if agent_configs = [] then h
      else h(orch_agents orch := load_loop e agent_configs Map.empty))"

definition reload_config :: "env \<Rightarrow> (string \<times> pydict) list \<Rightarrow> heap \<Rightarrow> orchestrator \<Rightarrow> heap \<times> orchestrator" where
  "reload_config e agent_configs h orch = (load_agents e agent_configs h orch, orch)"

definition init :: "env \<Rightarrow> (string \<times> pydict) list \<Rightarrow> heap \<Rightarrow> ref \<Rightarrow> heap \<times> orchestrator" where
  "init e agent_configs h fresh =
     (let orch = \<lparr>orch_agents = fresh, orch_context = Map.empty\<rparr>
      in (load_agents e agent_configs (h(fresh := Map.empty)) orch, orch))"

definition get_agent :: "heap \<Rightarrow> orchestrator \<Rightarrow> string \<Rightarrow> agent option" where
  "get_agent h orch agent_type = h (orch_agents orch) agent_type"

fun chunks :: "event list \<Rightarrow> string list" where
  "chunks [] = []"
| "chunks (Yield c # evs) = c # chunks evs"
| "chunks (ev # evs) = chunks evs"

definition payload_chunks :: "event list \<Rightarrow> string list" where
  "payload_chunks evs = filter (\<lambda>c. \<not> is_progress c) (chunks evs)"

definition accumulate :: "event list \<Rightarrow> string" where
  "accumulate evs = foldl (\<lambda>final_output chunk.
      if \<not> startswith chunk ''STREAM_CHUNK:'' then final_output @ chunk else final_output) []
      (chunks evs)"

fun deliver :: "event \<Rightarrow> event" where
  "deliver (Yield c) = Send c"
| "deliver ev = ev"

fun effects :: "event list \<Rightarrow> event list" where
  "effects [] = []"
| "effects (Yield c # evs) = effects evs"
| "effects (ev # evs) = ev # effects evs"

definition execute_task ::
  "(agent \<Rightarrow> string \<Rightarrow> pydict \<Rightarrow> event list \<times> outcome) \<Rightarrow> agent \<Rightarrow> string \<Rightarrow> pydict
     \<Rightarrow> event list \<times> bool" where
  "execute_task run ag task ctx =
     (case run ag task ctx of
        (evs, Completed) \<Rightarrow> (evs, True)
      | (evs, Raised ex) \<Rightarrow>
          (evs @ [Yield (''[ERROR] Unhandled exception in agent '' @ sq (name ag) @ '': ''
                           @ exn_str ex)], True)
      | (evs, Unfinished) \<Rightarrow> (evs, False))"

definition and_then :: "event list \<Rightarrow> event list \<times> pydict \<times> bool \<Rightarrow> event list \<times> pydict \<times> bool" where
  "and_then evs r = (case r of (evs', ctx, fin) \<Rightarrow> (evs @ evs', ctx, fin))"

text \<open>
  A step is a dictionary with the optional string fields \<^verbatim>\<open>name\<close>, \<^verbatim>\<open>agent\<close> and \<^verbatim>\<open>task\<close>.
  \<^verbatim>\<open>task_def.get('name', f'Task {i+1}')\<close> is \<open>task_name_of\<close>; a missing \<^verbatim>\<open>agent\<close> or \<^verbatim>\<open>task\<close>
  is \<^verbatim>\<open>None\<close>, which the tests \<^verbatim>\<open>if not agent_type\<close> and \<^verbatim>\<open>if not task_description\<close> treat
  like the empty string, so \<open>or_empty\<close> maps both to the empty string.
\<close>

definition task_name_of :: "nat \<Rightarrow> step \<Rightarrow> string" where
  "task_name_of i task_def =
     (case step_name task_def of Some nm \<Rightarrow> nm | None \<Rightarrow> ''Task '' @ show_nat (i + 1))"

definition or_empty :: "string option \<Rightarrow> string" where
  "or_empty v = (case v of Some x \<Rightarrow> x | None \<Rightarrow> [])"

fun run_steps ::
  "(agent \<Rightarrow> string \<Rightarrow> pydict \<Rightarrow> event list \<times> outcome) \<Rightarrow> registry \<Rightarrow> nat \<Rightarrow> pydict \<Rightarrow> step list
     \<Rightarrow> event list \<times> pydict \<times> bool" where
  "run_steps run reg i ctx [] = ([], ctx, True)"
| "run_steps run reg i ctx (task_def # rest) =
     (let task_name = task_name_of i task_def;
          agent_type = or_empty (step_agent task_def);
          task_description = or_empty (step_task task_def)
      in if agent_type = [] then
           and_then [Send (''[ERROR] Skipping invalid task '' @ sq task_name
                             @ '': missing agent type.'')]
             (run_steps run reg (Suc i) ctx rest)
         else if task_description = [] then
           and_then [Send (''[ERROR] Skipping invalid task '' @ sq task_name
                             @ '': missing task description.'')]
             (run_steps run reg (Suc i) ctx rest)
         else (case reg agent_type of
                 None \<Rightarrow>
                   and_then [Send (''[ERROR] Agent '' @ sq agent_type @ '' not found for task ''
                                     @ sq task_name @ ''.'')]
                     (run_steps run reg (Suc i) ctx rest)
               | Some ag \<Rightarrow>
                   (case execute_task run ag task_description ctx of
                      (evs, False) \<Rightarrow>
                        (Send (''[INFO] Executing task '' @ sq task_name @ '' with agent ''
                                 @ sq agent_type @ ''.'') # map deliver evs, ctx, False)
                    | (evs, True) \<Rightarrow>
                        and_then
                          (Send (''[INFO] Executing task '' @ sq task_name @ '' with agent ''
                                   @ sq agent_type @ ''.'') # map deliver evs)
                          (run_steps run reg (Suc i)
                             (ctx(agent_type @ ''_output'' \<mapsto> PStr (accumulate evs))) rest))))"

definition initial_context :: "env \<Rightarrow> step list \<Rightarrow> pydict" where
  "initial_context e workflow =
     [''initial_workflow'' \<mapsto> PObj (repr_workflow e workflow) (workflow \<noteq> []),
      ''outputs'' \<mapsto> PObj ''{}'' False]"

definition run_workflow ::
  "(agent \<Rightarrow> string \<Rightarrow> pydict \<Rightarrow> event list \<times> outcome) \<Rightarrow> env \<Rightarrow> heap \<Rightarrow> orchestrator \<Rightarrow> step list
     \<Rightarrow> event list \<times> orchestrator \<times> bool" where
  "run_workflow run e h orch workflow =
     (case run_steps run (h (orch_agents orch)) 0 (initial_context e workflow) workflow of
        (evs, ctx, True) \<Rightarrow>
          (Send ''[INFO] Starting workflow execution...'' # evs
             @ [Send ''[INFO] Workflow execution complete.''],
           orch\<lparr>orch_context := ctx\<rparr>, True)
      | (evs, ctx, False) \<Rightarrow>
          (Send ''[INFO] Starting workflow execution...'' # evs,
           orch\<lparr>orch_context := ctx\<rparr>, False))"

definition handle_ipc ::
  "(agent \<Rightarrow> string \<Rightarrow> pydict \<Rightarrow> event list \<times> outcome) \<Rightarrow> heap \<Rightarrow> orchestrator \<Rightarrow> string \<Rightarrow> string
     \<Rightarrow> event list \<times> string option" where
  "handle_ipc run h orch agent_type task =
     (case get_agent h orch agent_type of
        None \<Rightarrow> ([], Some (''[ERROR] Agent '' @ sq agent_type @ '' not found for IPC task.''))
      | Some ag \<Rightarrow>
          (case run ag task (orch_context orch) of
             (evs, Completed) \<Rightarrow> (effects evs, Some (concat (payload_chunks evs)))
           | (evs, Raised ex) \<Rightarrow>
               (effects evs, Some (''[ERROR] Unhandled exception in IPC for agent ''
                                     @ sq (name ag) @ '': '' @ exn_str ex))
           | (evs, Unfinished) \<Rightarrow> (effects evs, None)))"

text \<open>
  The HTTP handler: the request body either fails to parse or is an object whose optional
  fields \<^verbatim>\<open>agent\<close> and \<^verbatim>\<open>task\<close> are strings.
\<close>

datatype response = Result string | Error string

definition ipc_handler ::
  "(agent \<Rightarrow> string \<Rightarrow> pydict \<Rightarrow> event list \<times> outcome) \<Rightarrow> heap \<Rightarrow> orchestrator
     \<Rightarrow> exn + (string option \<times> string option) \<Rightarrow> event list \<times> response option" where
  "ipc_handler run h orch request =
     (case request of
        Inl ex \<Rightarrow> ([], Some (Error (exn_str ex)))
      | Inr (agent_field, task_field) \<Rightarrow>
          (case handle_ipc run h orch
                  (case agent_field of Some a \<Rightarrow> a | None \<Rightarrow> ''codegen'')
                  (case task_field of Some t \<Rightarrow> t | None \<Rightarrow> [])
           of (evs, Some result) \<Rightarrow> (evs, Some (Result result))
            | (evs, None) \<Rightarrow> (evs, None)))"

section \<open>Properties of traces and sample collaborators\<close>

text \<open>
  A buffered response is validated when it is the whole of an LLM stream that ended without
  raising, it is neither blank nor marked with \<^verbatim>\<open>[ERROR]\<close>, and rule enforcement reported
  no violation for it. The stream may be the agent's own or that of a Fix agent built from
  it (same name and configuration), since the self-correction sub-stream is part of the
  agent's stream. An event is safe when it is a progress chunk, a validated payload chunk,
  a message sent to the client, or the persisting of a validated response.
\<close>

definition validated :: "env \<Rightarrow> agent \<Rightarrow> pydict \<Rightarrow> string \<Rightarrow> bool" where
  "validated e ag ctx r =
     (\<exists>k prompt task buffered.
        execute_llm_workflow e (ag\<lparr>kind := k\<rparr>) prompt task ctx = (buffered, None)
        \<and> r = concat buffered
        \<and> \<not> response_invalid r
        \<and> enforce_agent_rules e (ag\<lparr>kind := k\<rparr>) r task ctx = Inr [])"

fun safe_event :: "env \<Rightarrow> agent \<Rightarrow> pydict \<Rightarrow> event \<Rightarrow> bool" where
  "safe_event e ag ctx (Yield c) = (is_progress c \<or> validated e ag ctx c)"
| "safe_event e ag ctx (Send s) = True"
| "safe_event e ag ctx (WriteFile filename content parent) = validated e ag ctx content"
| "safe_event e ag ctx (UpdateFile file_id content what) = validated e ag ctx content"

definition all_safe :: "(event \<Rightarrow> bool) \<Rightarrow> 'a act \<Rightarrow> bool" where
  "all_safe P m = list_all P (fst m)"

definition gives :: "(event list \<Rightarrow> 'a \<Rightarrow> bool) \<Rightarrow> 'a act \<Rightarrow> bool" where
  "gives Q m = (\<forall>out. snd m = Inr out \<longrightarrow> Q (fst m) out)"

definition pre :: "event list \<Rightarrow> 'a act \<Rightarrow> 'a act" where
  "pre evs m = (evs @ fst m, snd m)"

text \<open>
  Sample collaborators for concrete runs: nothing raises, every prompt is the template's
  name, the LLM streams the chunks \<open>llm\<close> gives for the agent's class and task, no rule
  is violated, every read returns a line of code, every write returns the identifier
  \<^verbatim>\<open>file-1\<close>. The text of the one context used in a run is given along.
\<close>

definition stub_env :: "(agent_kind \<Rightarrow> string \<Rightarrow> string list) \<Rightarrow> string \<Rightarrow> env" where
  "stub_env llm context_text =
     \<lparr>agent_base_init = (\<lambda>ag. None),
      update_context = (\<lambda>ag ctx. None),
      construct_prompt = (\<lambda>ag template_name template_data. Inr (py_str template_name)),
      execute_llm_workflow = (\<lambda>ag prompt task ctx. (llm (kind ag) task, None)),
      enforce_agent_rules = (\<lambda>ag output task ctx. Inr []),
      read_gdrive_file = (\<lambda>ag file_id what task ctx. Inr (PStr ''print(1)'')),
      write_gdrive_file = (\<lambda>ag filename content parent. Inr (PStr ''file-1'')),
      update_gdrive_file = (\<lambda>ag file_id content what. Inr True),
      str_dict = (\<lambda>ctx. context_text),
      repr_workflow = (\<lambda>workflow. ''[...]'')\<rparr>"

definition sample_agent :: "agent_kind \<Rightarrow> string \<Rightarrow> agent" where
  "sample_agent k nm = \<lparr>kind = k, name = nm, config = Map.empty, websocket_manager = True\<rparr>"

definition sample_system :: "env \<Rightarrow> heap \<times> orchestrator" where
  "sample_system e = init e [(''codegen'', Map.empty), (''test'', Map.empty)] (\<lambda>r. Map.empty) 0"

definition drive_ctx :: pydict where
  "drive_ctx = [''gdrive_file_id'' \<mapsto> PStr ''f1'', ''parent_folder_id'' \<mapsto> PStr ''d1'']"

definition drive_ctx_text :: string where
  "drive_ctx_text = ''{'gdrive_file_id': 'f1', 'parent_folder_id': 'd1'}''"

definition fixer_only :: "agent_kind \<Rightarrow> string \<Rightarrow> string list" where
  "fixer_only k task = (if k = Fix then [''fixed''] else [])"

definition echo :: "agent_kind \<Rightarrow> string \<Rightarrow> string list" where
  "echo k task = [''# '', task]"

definition silent :: "agent_kind \<Rightarrow> string \<Rightarrow> string list" where
  "silent k task = []"

definition steady :: "agent_kind \<Rightarrow> string \<Rightarrow> string list" where
  "steady k task = [''ok'']"

definition codegen_system :: "env \<Rightarrow> heap \<times> orchestrator" where
  "codegen_system e = init e [(''codegen'', Map.empty)] (\<lambda>r. Map.empty) 0"

definition demo_workflow :: "step list" where
  "demo_workflow =
     [\<lparr>step_name = None, step_agent = Some ''codegen'', step_task = Some ''A''\<rparr>,
      \<lparr>step_name = None, step_agent = Some ''missing'', step_task = Some ''B''\<rparr>,
      \<lparr>step_name = Some ''last'', step_agent = Some ''codegen'', step_task = Some ''B''\<rparr>]"

definition twice_workflow :: "step list" where
  "twice_workflow =
     [\<lparr>step_name = None, step_agent = Some ''codegen'', step_task = Some ''A''\<rparr>,
      \<lparr>step_name = None, step_agent = Some ''codegen'', step_task = Some ''B''\<rparr>]"

text \<open>
  What \<^verbatim>\<open>_load_agents\<close> leaves in the registry: every entry is an agent of the class the
  class map gives for its key, named by its key, with the configuration listed for that
  key, and whose construction did not raise.
\<close>

definition loaded :: "env \<Rightarrow> (string \<times> pydict) list \<Rightarrow> registry \<Rightarrow> bool" where
  "loaded e agent_configs reg =
     (\<forall>a ag. reg a = Some ag \<longrightarrow>
        agent_class_map a = Some (kind ag) \<and> name ag = a \<and> (a, config ag) \<in> set agent_configs
        \<and> websocket_manager ag \<and> agent_base_init e ag = None)"

text \<open>
  The content of every file operation of a trace, in order; a trace stores one response
  when no file operation carries anything else and the response is its only payload chunk
  A response answers a task when it is the whole of the stream the LLM gave this agent for
  this task, not blank, not marked \<^verbatim>\<open>[ERROR]\<close>, with no rule violation reported: the
  validated response of the run itself. (\<open>stored\<close> is the postcondition used for the
  lifecycles: one of the chunks answers the task and it is what is stored, by exactly one
  file operation where \<open>must\<close> holds.)
  The lifecycle of an agent is the body of the \<^verbatim>\<open>try\<close> block of its
  \<^verbatim>\<open>run\<close> method.
\<close>

fun written :: "event list \<Rightarrow> string list" where
  "written [] = []"
| "written (WriteFile filename content parent # evs) = content # written evs"
| "written (UpdateFile file_id content what # evs) = content # written evs"
| "written (ev # evs) = written evs"

definition artifact :: "string \<Rightarrow> event list \<Rightarrow> bool" where
  "artifact response evs =
     (set (written evs) \<subseteq> {response}
      \<and> filter (\<lambda>c. \<not> is_progress c) (chunks evs) = filter (\<lambda>c. \<not> is_progress c) [response])"

definition answers :: "env \<Rightarrow> agent \<Rightarrow> string \<Rightarrow> pydict \<Rightarrow> string \<Rightarrow> bool" where
  "answers e ag task ctx r =
     (\<exists>prompt buffered.
        execute_llm_workflow e ag prompt task ctx = (buffered, None)
        \<and> r = concat buffered
        \<and> \<not> response_invalid r
        \<and> enforce_agent_rules e ag r task ctx = Inr [])"

definition stored ::
  "env \<Rightarrow> agent \<Rightarrow> string \<Rightarrow> pydict \<Rightarrow> bool \<Rightarrow> event list \<Rightarrow> unit \<Rightarrow> bool" where
  "stored e ag task ctx must evs u =
     (\<exists>response \<in> set (chunks evs).
        answers e ag task ctx response \<and> artifact response evs
        \<and> (must \<longrightarrow> written evs = [response]))"

definition lifecycle :: "nat \<Rightarrow> env \<Rightarrow> agent \<Rightarrow> string \<Rightarrow> pydict \<Rightarrow> unit act" where
  "lifecycle n e ag task ctx =
     (case kind ag of
        CodeGen \<Rightarrow> codegen_body e ag task ctx
      | Doc \<Rightarrow> doc_body e ag task ctx
      | Fix \<Rightarrow> fix_body e ag task ctx
      | Planner \<Rightarrow> planner_body e ag task ctx
      | Qa \<Rightarrow> qa_body e ag task ctx
      | Test \<Rightarrow>
          bind (test_body n e ag task ctx (dict_get ctx ''operation_type'' (PStr ''generate_tests'')))
            (\<lambda>out. ret ()))"


text \<open>
  What one step of a workflow contributes, in the words of the specification: a step
  without an agent type, without a task description, or with an agent type that is not
  registered is reported with one error message and leaves the context as it is; any other
  step is announced, the events of its task follow, and its accumulated output is stored
  under \<^verbatim>\<open><agentType>_output\<close>.
\<close>

definition step_ok ::
  "(agent \<Rightarrow> string \<Rightarrow> pydict \<Rightarrow> event list \<times> outcome) \<Rightarrow> registry \<Rightarrow> nat \<Rightarrow> step
     \<Rightarrow> pydict \<Rightarrow> event list \<Rightarrow> pydict \<Rightarrow> bool" where
  "step_ok run reg i s ctx tr ctx' =
     (if or_empty (step_agent s) = [] then
        tr = [Send (''[ERROR] Skipping invalid task '' @ sq (task_name_of i s)
                      @ '': missing agent type.'')] \<and> ctx' = ctx
      else if or_empty (step_task s) = [] then
        tr = [Send (''[ERROR] Skipping invalid task '' @ sq (task_name_of i s)
                      @ '': missing task description.'')] \<and> ctx' = ctx
      else (case reg (or_empty (step_agent s)) of
              None \<Rightarrow>
                tr = [Send (''[ERROR] Agent '' @ sq (or_empty (step_agent s))
                              @ '' not found for task '' @ sq (task_name_of i s) @ ''.'')]
                \<and> ctx' = ctx
            | Some ag \<Rightarrow>
                tr = Send (''[INFO] Executing task '' @ sq (task_name_of i s) @ '' with agent ''
                             @ sq (or_empty (step_agent s)) @ ''.'')
                       # map deliver (fst (execute_task run ag (or_empty (step_task s)) ctx))
                \<and> ctx' = ctx(or_empty (step_agent s) @ ''_output'' \<mapsto>
                              PStr (accumulate (fst (execute_task run ag (or_empty (step_task s))
                                                       ctx))))))"

text \<open>
  The chunk with which \<^verbatim>\<open>FixAgent.run\<close> opens its stream, recognised by its fixed part, and
  the number of such chunks in a trace: the number of Fix agents that were started.
\<close>

definition fix_start :: "agent \<Rightarrow> string \<Rightarrow> bool" where
  "fix_start ag chunk =
     startswith chunk (''STREAM_CHUNK:'' @ name ag @ '':'' @ tag ag @ '' Starting code fixing task: '')"

definition fix_starts :: "agent \<Rightarrow> event list \<Rightarrow> nat" where
  "fix_starts ag evs = length (filter (fix_start ag) (chunks evs))"

text \<open>An LLM whose answer happens to start with the progress prefix.\<close>

definition tagged :: "agent_kind \<Rightarrow> string \<Rightarrow> string list" where
  "tagged k task = [''STREAM_CHUNK:x'']"

section \<open>Basic facts\<close>

declare show_nat.simps [simp del]

declare agent_self_correct.simps [simp del]

lemma bind_ret [simp]: "bind (ret x) f = f x"
  by (simp add: bind_def ret_def split: prod.splits)

lemma bind_raise [simp]: "bind (py_raise ex) f = py_raise ex"
  by (simp add: bind_def py_raise_def)

lemma bind_lift_Inr [simp]: "bind (lift (Inr x)) f = f x"
  by (simp add: bind_def lift_def split: prod.splits)

lemma bind_lift_Inl [simp]: "bind (lift (Inl ex)) f = py_raise ex"
  by (simp add: bind_def lift_def py_raise_def)

lemma bind_emit: "bind (emit ev) f = pre [ev] (f ())"
  by (simp add: bind_def emit_def pre_def split: prod.splits)

lemma bind_pre: "bind (pre evs m) f = pre evs (bind m f)"
  by (cases m; cases "snd m") (auto simp: bind_def pre_def split: prod.splits sum.splits)

lemma pre_pre: "pre evs (pre evs' m) = pre (evs @ evs') m"
  by (simp add: pre_def)

lemma pre_ret: "pre evs (ret x) = (evs, Inr x)"
  by (simp add: pre_def ret_def)

lemma pre_raise: "pre evs (py_raise ex) = (evs, Inl ex)"
  by (simp add: pre_def py_raise_def)

lemma bind_assoc: "bind (bind m f) g = bind m (\<lambda>x. bind (f x) g)"
  by (cases m; cases "snd m") (auto simp: bind_def split: prod.splits sum.splits)

lemmas act_eval = bind_emit bind_pre pre_pre pre_ret pre_raise bind_assoc say_def

lemma bind_pair:
  "bind (evs, r) f = (case r of Inl ex \<Rightarrow> (evs, Inl ex) | Inr x \<Rightarrow> pre evs (f x))"
  by (simp add: bind_def pre_def split: sum.splits prod.splits)

lemma pre_pair: "pre evs (evs', r) = (evs @ evs', r)"
  by (simp add: pre_def)

lemmas act_norm = ret_def py_raise_def lift_def emit_def say_def bind_pair pre_pair pre_pre bind_pre

lemma stub_env_sel [simp]:
  "agent_base_init (stub_env llm txt) = (\<lambda>ag. None)"
  "update_context (stub_env llm txt) = (\<lambda>ag ctx. None)"
  "construct_prompt (stub_env llm txt) = (\<lambda>ag template_name template_data. Inr (py_str template_name))"
  "execute_llm_workflow (stub_env llm txt) = (\<lambda>ag prompt task ctx. (llm (kind ag) task, None))"
  "enforce_agent_rules (stub_env llm txt) = (\<lambda>ag output task ctx. Inr [])"
  "read_gdrive_file (stub_env llm txt) = (\<lambda>ag file_id what task ctx. Inr (PStr ''print(1)''))"
  "write_gdrive_file (stub_env llm txt) = (\<lambda>ag filename content parent. Inr (PStr ''file-1''))"
  "update_gdrive_file (stub_env llm txt) = (\<lambda>ag file_id content what. Inr True)"
  "str_dict (stub_env llm txt) = (\<lambda>ctx. txt)"
  "repr_workflow (stub_env llm txt) = (\<lambda>workflow. ''[...]'')"
  by (simp_all add: stub_env_def)

lemma sample_agent_sel [simp]:
  "kind (sample_agent k nm) = k" "name (sample_agent k nm) = nm"
  "config (sample_agent k nm) = Map.empty" "websocket_manager (sample_agent k nm) = True"
  by (simp_all add: sample_agent_def)

lemma drive_ctx_get [simp]:
  "dict_get drive_ctx ''gdrive_file_id'' d = PStr ''f1''"
  "dict_get drive_ctx ''parent_folder_id'' d = PStr ''d1''"
  "dict_get drive_ctx ''operation_type'' d = d"
  "dict_get drive_ctx ''output_filename'' d = d"
  "dict_get drive_ctx ''framework'' d = d"
  "dict_get drive_ctx ''bug_report_file_id'' d = d"
  "dict_get drive_ctx ''level'' d = d"
  by (simp_all add: dict_get_def drive_ctx_def)

lemma dict_get_empty [simp]: "dict_get Map.empty k d = d"
  by (simp add: dict_get_def)

lemma response_invalid_Nil [simp]: "response_invalid []"
  by (simp add: response_invalid_def strip_def)

lemma self_correct_not_raised: "snd (agent_self_correct n e ag t ctx d ty g) \<noteq> Raised ex"
  by (simp add: agent_self_correct.simps Let_def split: option.splits prod.splits outcome.splits)

lemma forward_self_correct:
  "forward (agent_self_correct n e ag t ctx d ty g) =
     (fst (agent_self_correct n e ag t ctx d ty g),
      Inr (snd (agent_self_correct n e ag t ctx d ty g)))"
  using self_correct_not_raised [of n e ag t ctx d ty g]
  by (cases "agent_self_correct n e ag t ctx d ty g";
      cases "snd (agent_self_correct n e ag t ctx d ty g)")
     (auto simp: forward_def)

lemma chunks_append [simp]: "chunks (xs @ ys) = chunks xs @ chunks ys"
  by (induction xs rule: chunks.induct) simp_all

lemma is_progress_progress [simp]: "is_progress (progress nm msg)"
  by (simp add: is_progress_def progress_def startswith_def)

lemma sample_registry:
  "get_agent (fst (sample_system (stub_env llm txt))) (snd (sample_system (stub_env llm txt))) a =
     (if a = ''codegen'' then Some (sample_agent CodeGen ''codegen'')
      else if a = ''test'' then Some (sample_agent Test ''test'') else None)"
  by (simp add: sample_system_def init_def load_agents_def get_agent_def Let_def
        agent_class_map_def stub_env_def sample_agent_def)

section \<open>Lifecycle buffering\<close>

lemma all_safe_bind:
  "all_safe P (bind m f) \<longleftrightarrow> all_safe P m \<and> (\<forall>x. snd m = Inr x \<longrightarrow> all_safe P (f x))"
  by (cases m; cases "snd m") (auto simp: all_safe_def bind_def split: prod.splits sum.splits)

lemma all_safe_simps [simp]:
  "all_safe P (ret x)" "all_safe P (py_raise ex)" "all_safe P (lift r)"
  "all_safe P (emit ev) = P ev"
  by (simp_all add: all_safe_def ret_def py_raise_def lift_def emit_def)

lemma same_kind: "ag\<lparr>kind := kind ag\<rparr> = ag"
  by simp

lemma validated_kind [simp]: "validated e (ag\<lparr>kind := k\<rparr>) ctx r = validated e ag ctx r"
  by (simp add: validated_def)

lemma safe_event_kind [simp]: "safe_event e (ag\<lparr>kind := k\<rparr>) ctx ev = safe_event e ag ctx ev"
  by (cases ev) simp_all

lemma buffer_llm_Inr:
  "snd (buffer_llm e ag prompt task ctx) = Inr r \<Longrightarrow>
     \<exists>buffered. execute_llm_workflow e ag prompt task ctx = (buffered, None) \<and> r = concat buffered"
  by (auto simp: buffer_llm_def ret_def py_raise_def split: prod.splits option.splits)

lemma validate_response_Inr:
  "snd (validate_response e ag r task ctx) = Inr u \<Longrightarrow>
     \<not> response_invalid r \<and> enforce_agent_rules e ag r task ctx = Inr []"
  by (cases "enforce_agent_rules e ag r task ctx")
     (auto simp: validate_response_def ret_def py_raise_def split: if_splits)

lemma validatedI:
  "snd (buffer_llm e ag prompt task ctx) = Inr r \<Longrightarrow>
   snd (validate_response e ag r task ctx) = Inr u \<Longrightarrow> validated e ag ctx r"
  unfolding validated_def
  by (metis buffer_llm_Inr validate_response_Inr same_kind)

lemma all_safe_buffer [simp]: "all_safe P (buffer_llm e ag prompt task ctx)"
  by (simp add: buffer_llm_def split: prod.splits option.splits)

lemma all_safe_validate [simp]: "all_safe P (validate_response e ag r task ctx)"
  by (simp add: validate_response_def all_safe_bind)

lemma all_safe_say [simp]: "all_safe (safe_event e ag' ctx) (say ag msg)"
  by (simp add: say_def)

lemma all_safe_read [simp]: "all_safe P (read_file e ag i w t ctx)"
  by (simp add: read_file_def)

lemma all_safe_output_location [simp]: "all_safe P (output_location ctx d)"
  by (simp add: output_location_def Let_def)

lemma all_safe_persist:
  "validated e ag ctx r \<Longrightarrow> all_safe (safe_event e ag ctx) (persist e ag' c details r w)"
  by (simp add: persist_def write_file_def update_file_def all_safe_bind split: file_op.splits)

lemma all_safe_doc_prepare [simp]: "all_safe P (doc_prepare e ag task ctx op)"
  by (simp add: doc_prepare_def Let_def all_safe_bind)

lemma all_safe_fix_prepare [simp]: "all_safe P (fix_prepare e ag task ctx op)"
  by (simp add: fix_prepare_def Let_def all_safe_bind)

lemma all_safe_qa_prepare [simp]: "all_safe P (qa_prepare e ag task ctx op)"
  by (simp add: qa_prepare_def qa_code_to_analyze_def qa_optional_read_def Let_def all_safe_bind
       split: prod.splits)

lemma codegen_body_safe: "all_safe (safe_event e ag ctx) (codegen_body e ag task ctx)"
  by (auto simp: codegen_body_def all_safe_bind intro: validatedI)

lemma doc_body_safe: "all_safe (safe_event e ag ctx) (doc_body e ag task ctx)"
  by (auto simp: doc_body_def Let_def all_safe_bind split: prod.splits
        intro!: all_safe_persist intro: validatedI)

lemma fix_body_safe: "all_safe (safe_event e ag ctx) (fix_body e ag task ctx)"
  by (auto simp: fix_body_def Let_def all_safe_bind split: prod.splits
        intro!: all_safe_persist intro: validatedI)

lemma planner_body_safe: "all_safe (safe_event e ag ctx) (planner_body e ag task ctx)"
  by (auto simp: planner_body_def Let_def all_safe_bind split: prod.splits
        intro!: all_safe_persist intro: validatedI)

lemma qa_body_safe: "all_safe (safe_event e ag ctx) (qa_body e ag task ctx)"
  by (auto simp: qa_body_def Let_def all_safe_bind split: prod.splits option.splits
       intro!: all_safe_persist intro: validatedI)

lemma guarded_safe:
  assumes "all_safe (safe_event e ag ctx) body"
    and "\<And>ex. list_all (safe_event e ag ctx) (fst (handler ex))"
  shows "list_all (safe_event e ag ctx) (fst (guarded e ag ctx' msg body handler))"
proof (cases "update_context e ag ctx'")
  case None
  obtain evs r where b: "body = (evs, r)" by (cases body)
  show ?thesis
  proof (cases r)
    case (Inl ex)
    obtain evs' out where h: "handler ex = (evs', out)" by (cases "handler ex")
    from assms(2)[of ex] h have "list_all (safe_event e ag ctx) evs'" by simp
    with assms(1) b Inl None h show ?thesis
      by (simp add: guarded_def all_safe_def)
  next
    case (Inr u)
    with assms(1) b None show ?thesis by (simp add: guarded_def all_safe_def)
  qed
qed (simp add: guarded_def)

lemma correction_safe:
  "list_all (safe_event e ag ctx) (fst (agent_self_correct n e ag t ctx d ty g))"
  "list_all (safe_event e ag ctx) (fst (fix_run n e ag t ctx))"
proof (induction n e ag t ctx d ty g and n e ag t ctx rule: agent_self_correct_fix_run.induct)
  case (1 n e ag original_task current_context error_details error_type correction_guidance)
  then show ?case
    by (auto simp: agent_self_correct.simps Let_def critical_def
          split: option.splits prod.splits outcome.splits)
next
  case (2 e ag task ctx)
  then show ?case by simp
next
  case (3 n e ag task ctx)
  then show ?case by (simp add: guarded_safe fix_body_safe)
qed

lemma test_prepare_stub:
  "test_prepare (stub_env llm txt) (sample_agent Test nm) task drive_ctx =
     (([], Inr (''test_agent_generate.txt'', CreateOp (PStr ''test_generated.py'') (PStr ''d1''))))"
  by (simp add: test_prepare_def Let_def read_file_def output_location_def act_norm)

lemma test_run_invalid:
  assumes "update_context e ag ctx = None"
    and "dict_get ctx ''operation_type'' (PStr ''generate_tests'') = PStr ''generate_tests''"
    and "test_prepare e ag task ctx = ([], Inr (prompt, details))"
    and "execute_llm_workflow e ag prompt task ctx = (buffered, None)"
    and "response_invalid (concat buffered)"
  shows "test_run n e ag task ctx =
     ((if websocket_manager ag
       then [Send (progress (name ag) (tag ag @ '' Starting operation: generate_tests...''))]
       else [])
      @ Yield (tag ag @ '' LLM workflow failed or returned empty response.'')
      # fst (agent_self_correct n e ag task ctx
               (tag ag @ '' LLM workflow failed or returned empty response.'') ''llm_response_error''
               ''The LLM failed to generate a valid response. Please analyze the prompt and try again.''),
      snd (agent_self_correct n e ag task ctx
               (tag ag @ '' LLM workflow failed or returned empty response.'') ''llm_response_error''
               ''The LLM failed to generate a valid response. Please analyze the prompt and try again.''))"
  using assms
  by (simp add: test_run_def test_body_def Let_def buffer_llm_def forward_self_correct act_norm)

lemma test_stub_invalid_prefix:
  "take 2 (fst (agent_run 1 (stub_env fixer_only drive_ctx_text) (sample_agent Test ''test'')
                  ''T'' drive_ctx))
     = [Send (''STREAM_CHUNK:test:[test] Starting operation: generate_tests...'' @ newline),
        Yield ''[test] LLM workflow failed or returned empty response.'']"
  by (simp add: agent_run_def test_run_invalid [OF _ _ test_prepare_stub] fixer_only_def
        progress_def tag_def)

text \<open>
  Claim C1, as stated: for every agent type and every input, no payload chunk (a chunk
  without the \<^verbatim>\<open>STREAM_CHUNK:\<close> prefix) is emitted before the LLM response has been
  buffered and has passed validation and rule enforcement. The test agent breaks it: with
  an LLM that answers the test agent with an empty stream, the buffered response is
  invalid, and the second event of the run is the untagged chunk
  \<^verbatim>\<open>[test] LLM workflow failed or returned empty response.\<close>, a payload chunk that is
  no validated response.
\<close>

theorem C1_counterexample:
  "take 2 (fst (agent_run 1 (stub_env fixer_only drive_ctx_text) (sample_agent Test ''test'')
                  ''T'' drive_ctx))
     = [Send (''STREAM_CHUNK:test:[test] Starting operation: generate_tests...'' @ newline),
        Yield ''[test] LLM workflow failed or returned empty response.'']
   \<and> \<not> is_progress ''[test] LLM workflow failed or returned empty response.''
   \<and> response_invalid (concat (fst (execute_llm_workflow (stub_env fixer_only drive_ctx_text)
          (sample_agent Test ''test'') ''test_agent_generate.txt'' ''T'' drive_ctx)))
   \<and> \<not> list_all (safe_event (stub_env fixer_only drive_ctx_text) (sample_agent Test ''test'')
            drive_ctx)
          (fst (agent_run 1 (stub_env fixer_only drive_ctx_text) (sample_agent Test ''test'')
                  ''T'' drive_ctx))"
proof -
  let ?e = "stub_env fixer_only drive_ctx_text"
  let ?ag = "sample_agent Test ''test''"
  let ?c = "''[test] LLM workflow failed or returned empty response.''"
  let ?tr = "fst (agent_run 1 ?e ?ag ''T'' drive_ctx)"
  have plain: "\<not> is_progress ?c"
    by (simp add: is_progress_def startswith_def)
  have unvalidated: "\<not> validated ?e ?ag drive_ctx ?c"
    by (simp add: validated_def fixer_only_def)
  have "Yield ?c \<in> set (take 2 ?tr)"
    by (subst test_stub_invalid_prefix) simp
  then have "Yield ?c \<in> set ?tr"
    by (rule in_set_takeD)
  moreover have "\<not> safe_event ?e ?ag drive_ctx (Yield ?c)"
    using plain unvalidated by simp
  ultimately have "\<not> list_all (safe_event ?e ?ag drive_ctx) ?tr"
    unfolding list_all_iff by blast
  with plain test_stub_invalid_prefix show ?thesis
    by (simp add: fixer_only_def)
qed

text \<open>
  Claim C1, amended: for every agent other than the test agent, every input and every
  recursion limit, each event of the run is safe: a yielded chunk is a progress chunk or
  a validated response (the agent's own, or that of a Fix agent run for it during
  self-correction), and every write or update of an artifact persists a validated
  response. A validated response is the whole of an LLM stream that ended, not blank, not
  marked \<^verbatim>\<open>[ERROR]\<close>, with no rule violation reported.
\<close>

theorem C1_payload_is_validated:
  assumes "kind ag \<noteq> Test"
  shows "list_all (safe_event e ag ctx) (fst (agent_run n e ag task ctx))"
  using assms
  by (cases "kind ag")
     (simp_all add: agent_run_def codegen_run_def doc_run_def planner_run_def qa_run_def
        guarded_safe correction_safe codegen_body_safe doc_body_safe planner_body_safe
        qa_body_safe fix_body_safe del: fix_run.simps)

theorem C1_payload_is_validated_witness:
  "kind (sample_agent CodeGen ''codegen'') \<noteq> Test
   \<and> list_all (safe_event (stub_env echo ''{}'') (sample_agent CodeGen ''codegen'') Map.empty)
        (fst (agent_run 1 (stub_env echo ''{}'') (sample_agent CodeGen ''codegen'') ''T''
                Map.empty))"
  using C1_payload_is_validated [of "sample_agent CodeGen ''codegen''"
          "stub_env echo ''{}''" Map.empty 1 "''T''"]
  by simp

section \<open>Self-correction\<close>

lemma fix_body_missing_id:
  assumes "ctx ''operation_type'' = None" "ctx ''gdrive_file_id'' = None"
  shows "fix_body e ag t ctx =
     ([Yield (progress (name ag) (tag ag @ '' Preparing data for operation: fix_and_create...''))],
      Inl (Exn ValueError ''Missing 'gdrive_file_id' in context for create operation.''))"
  using assms
  by (simp add: fix_body_def fix_prepare_def Let_def dict_get_def act_norm)

lemma guarded_Inl:
  "update_context e ag ctx = None \<Longrightarrow> body = (evs, Inl ex) \<Longrightarrow>
   guarded e ag ctx msg body handler =
     (Yield (progress (name ag) msg) # evs
        @ Yield (progress (name ag)
            (tag ag @ '' Self-correction triggered due to error: '' @ exn_str ex))
        # fst (handler ex), snd (handler ex))"
  by (simp add: guarded_def split: prod.splits)

lemma guarded_Inr:
  "update_context e ag ctx = None \<Longrightarrow> body = (evs, Inr u) \<Longrightarrow>
   guarded e ag ctx msg body handler = (Yield (progress (name ag) msg) # evs, Completed)"
  by (simp add: guarded_def)

lemma snd_guarded:
  "snd (guarded e ag ctx msg body handler) =
     (case update_context e ag ctx of
        Some ex \<Rightarrow> Raised ex
      | None \<Rightarrow> (case snd body of Inr u \<Rightarrow> Completed | Inl ex \<Rightarrow> snd (handler ex)))"
  by (cases body) (auto simp: guarded_def split: option.splits prod.splits sum.splits)

lemma correction_ends:
  "snd (agent_self_correct n e ag t ctx d ty g) = Completed"
  "snd (fix_run n e ag t ctx) \<noteq> Unfinished"
proof (induction n e ag t ctx d ty g and n e ag t ctx rule: agent_self_correct_fix_run.induct)
  case (1 n e ag original_task current_context error_details error_type correction_guidance)
  show ?case
  proof (cases "agent_base_init e (ag\<lparr>kind := Fix\<rparr>)")
    case None
    from 1 [OF refl refl refl None] None show ?thesis
      by (auto simp: agent_self_correct.simps Let_def simp del: fix_run.simps
            split: prod.splits outcome.splits)
  next
    case (Some ex)
    then show ?thesis by (simp add: agent_self_correct.simps Let_def)
  qed
next
  case (2 e ag task ctx)
  show ?case by simp
next
  case (3 n e ag task ctx)
  then show ?case
    by (simp add: snd_guarded split: option.splits sum.splits)
qed

lemma self_correct_runs_fix:
  assumes "agent_base_init e (ag\<lparr>kind := Fix\<rparr>) = None"
  shows "agent_self_correct n e ag t ctx d ty g =
     (Yield (progress (name ag)
        (''[INFO] Initiating self-correction for '' @ name ag @ '' due to '' @ ty
           @ ''. Error: '' @ d))
      # fst (fix_run n e (ag\<lparr>kind := Fix\<rparr>) (fix_task_of e ag t ctx d ty g) ctx)
      @ [case snd (fix_run n e (ag\<lparr>kind := Fix\<rparr>) (fix_task_of e ag t ctx d ty g) ctx) of
           Raised ex \<Rightarrow> critical ag ex
         | _ \<Rightarrow> Yield (progress (name ag)
                  (''[INFO] Self-correction attempt for '' @ name ag @ '' completed.''))],
      Completed)"
  using assms correction_ends(2) [of n e "ag\<lparr>kind := Fix\<rparr>" "fix_task_of e ag t ctx d ty g" ctx]
  by (auto simp: agent_self_correct.simps Let_def simp del: fix_run.simps
        split: prod.splits outcome.splits)

lemma self_correct_at_limit:
  assumes "agent_base_init e (ag\<lparr>kind := Fix\<rparr>) = None"
  shows "agent_self_correct 0 e ag t ctx d ty g =
     ([Yield (progress (name ag)
         (''[INFO] Initiating self-correction for '' @ name ag @ '' due to '' @ ty
            @ ''. Error: '' @ d)),
       critical ag (Exn RecursionError ''maximum recursion depth exceeded'')], Completed)"
  by (simp add: self_correct_runs_fix [OF assms])

lemma self_correct_reenters:
  assumes init: "agent_base_init e (ag\<lparr>kind := Fix\<rparr>) = None"
    and upd: "update_context e (ag\<lparr>kind := Fix\<rparr>) ctx = None"
    and body: "fix_body e (ag\<lparr>kind := Fix\<rparr>) (fix_task_of e ag t ctx d ty g) ctx = (evs, Inl ex)"
  shows "agent_self_correct (Suc n) e ag t ctx d ty g =
     (Yield (progress (name ag)
        (''[INFO] Initiating self-correction for '' @ name ag @ '' due to '' @ ty
           @ ''. Error: '' @ d))
      # Yield (progress (name ag)
          (tag ag @ '' Starting code fixing task: '' @ fix_task_of e ag t ctx d ty g))
      # evs
      @ Yield (progress (name ag)
          (tag ag @ '' Self-correction triggered due to error: '' @ exn_str ex))
      # fst (agent_self_correct n e (ag\<lparr>kind := Fix\<rparr>) (fix_task_of e ag t ctx d ty g) ctx
               (exn_str ex) ''agent_execution_error''
               ''The agent failed during code fixing or validation. Analyze the error and context to provide a fix.'')
      @ [Yield (progress (name ag)
           (''[INFO] Self-correction attempt for '' @ name ag @ '' completed.''))],
      Completed)"
  by (simp add: self_correct_runs_fix [OF init] guarded_Inl [OF upd body] correction_ends(1)
        tag_def)

lemma fix_start_kind [simp]: "fix_start (ag\<lparr>kind := k\<rparr>) = fix_start ag"
  by (rule ext) (simp add: fix_start_def tag_def)

lemma critical_kind [simp]: "critical (ag\<lparr>kind := k\<rparr>) ex = critical ag ex"
  by (simp add: critical_def)

lemma fix_start_start:
  "fix_start ag (progress (name ag) (tag ag @ '' Starting code fixing task: '' @ t))"
  by (simp add: fix_start_def progress_def startswith_def)

lemma fix_starts_append: "fix_starts ag (xs @ ys) = fix_starts ag xs + fix_starts ag ys"
  by (simp add: fix_starts_def)

lemma nesting_reaches_limit:
  assumes init: "agent_base_init e (ag\<lparr>kind := Fix\<rparr>) = None"
    and upd: "update_context e (ag\<lparr>kind := Fix\<rparr>) ctx = None"
    and fails: "\<forall>t. \<exists>evs ex. fix_body e (ag\<lparr>kind := Fix\<rparr>) t ctx = (evs, Inl ex)"
    and a: "a = ag \<or> a = ag\<lparr>kind := Fix\<rparr>"
  shows "n \<le> fix_starts ag (fst (agent_self_correct n e a t ctx d ty g))
       \<and> critical ag (Exn RecursionError ''maximum recursion depth exceeded'')
           \<in> set (fst (agent_self_correct n e a t ctx d ty g))"
  using a
proof (induction n arbitrary: a t d ty g)
  case 0
  have "agent_base_init e (a\<lparr>kind := Fix\<rparr>) = None"
    using 0 init by auto
  from self_correct_at_limit [OF this] 0 show ?case
    by auto
next
  case (Suc n)
  have fa: "a\<lparr>kind := Fix\<rparr> = ag\<lparr>kind := Fix\<rparr>" and nm: "name a = name ag"
    and tg: "tag a = tag ag"
    using Suc.prems by (auto simp: tag_def)
  obtain evs ex where
    body: "fix_body e (ag\<lparr>kind := Fix\<rparr>) (fix_task_of e a t ctx d ty g) ctx = (evs, Inl ex)"
    using fails by blast
  let ?first = "Yield (progress (name a)
        (''[INFO] Initiating self-correction for '' @ name a @ '' due to '' @ ty
           @ ''. Error: '' @ d))"
  let ?start = "Yield (progress (name ag)
          (tag ag @ '' Starting code fixing task: '' @ fix_task_of e a t ctx d ty g))"
  let ?trig = "Yield (progress (name a)
          (tag a @ '' Self-correction triggered due to error: '' @ exn_str ex))"
  let ?inner = "fst (agent_self_correct n e (ag\<lparr>kind := Fix\<rparr>) (fix_task_of e a t ctx d ty g) ctx
               (exn_str ex) ''agent_execution_error''
               ''The agent failed during code fixing or validation. Analyze the error and context to provide a fix.'')"
  let ?done = "Yield (progress (name a)
           (''[INFO] Self-correction attempt for '' @ name a @ '' completed.''))"
  have IH: "n \<le> fix_starts ag ?inner
       \<and> critical ag (Exn RecursionError ''maximum recursion depth exceeded'') \<in> set ?inner"
    by (rule Suc.IH) simp
  have "agent_self_correct (Suc n) e a t ctx d ty g =
     (?first
      # Yield (progress (name a)
          (tag a @ '' Starting code fixing task: '' @ fix_task_of e a t ctx d ty g))
      # evs @ ?trig
      # fst (agent_self_correct n e (a\<lparr>kind := Fix\<rparr>) (fix_task_of e a t ctx d ty g) ctx
               (exn_str ex) ''agent_execution_error''
               ''The agent failed during code fixing or validation. Analyze the error and context to provide a fix.'')
      @ [?done], Completed)"
    by (rule self_correct_reenters) (simp_all add: fa init upd body)
  then have tr: "fst (agent_self_correct (Suc n) e a t ctx d ty g)
                   = [?first] @ [?start] @ (evs @ [?trig]) @ ?inner @ [?done]"
    unfolding fa nm tg by simp
  have one: "fix_starts ag [?start] = 1"
    using fix_start_start [of ag "fix_task_of e a t ctx d ty g"] by (simp add: fix_starts_def)
  have "fix_starts ag (fst (agent_self_correct (Suc n) e a t ctx d ty g)) =
          fix_starts ag [?first] + (1 + (fix_starts ag (evs @ [?trig])
             + (fix_starts ag ?inner + fix_starts ag [?done])))"
    unfolding tr fix_starts_append one ..
  moreover have "critical ag (Exn RecursionError ''maximum recursion depth exceeded'')
                   \<in> set (fst (agent_self_correct (Suc n) e a t ctx d ty g))"
    unfolding tr using IH by simp
  ultimately show ?case
    using IH by simp
qed

text \<open>
  Claim C7, as stated: under repeated failure of the Fix agent the correction is not
  guaranteed to terminate. With an LLM that streams nothing and an empty context the Fix
  agent fails on the missing \<^verbatim>\<open>gdrive_file_id\<close> for every task, at every depth; yet for
  every recursion limit the coordinator's stream ends. At the limit of one nested Fix agent
  it is: the announcement, the Fix agent's opening chunk, its progress chunk, the chunk that
  reports its failure, the announcement of the nested correction, the critical-error chunk
  for the \<^verbatim>\<open>RecursionError\<close>, and the closing chunk of the outer correction.
\<close>

theorem C7_counterexample:
  "(\<forall>t. \<exists>evs ex. fix_body (stub_env silent ''{}'') (sample_agent Fix ''codegen'') t Map.empty
                    = (evs, Inl ex))
   \<and> (\<forall>n. snd (agent_self_correct n (stub_env silent ''{}'') (sample_agent CodeGen ''codegen'')
                  ''T'' Map.empty ''LLM response was empty or contained an error.''
                  ''agent_execution_error'' ''Analyze the error.'') = Completed)
   \<and> chunks (fst (agent_self_correct 1 (stub_env silent ''{}'') (sample_agent CodeGen ''codegen'')
                  ''T'' Map.empty ''LLM response was empty or contained an error.''
                  ''agent_execution_error'' ''Analyze the error.''))
     = [progress ''codegen'' (''[INFO] Initiating self-correction for codegen due to ''
          @ ''agent_execution_error. Error: LLM response was empty or contained an error.''),
        progress ''codegen'' (''[codegen] Starting code fixing task: ''
          @ fix_task_of (stub_env silent ''{}'') (sample_agent CodeGen ''codegen'') ''T'' Map.empty
              ''LLM response was empty or contained an error.'' ''agent_execution_error''
              ''Analyze the error.''),
        progress ''codegen'' ''[codegen] Preparing data for operation: fix_and_create...'',
        progress ''codegen'' (''[codegen] Self-correction triggered due to error: ''
          @ ''Missing 'gdrive_file_id' in context for create operation.''),
        progress ''codegen'' (''[INFO] Initiating self-correction for codegen due to ''
          @ ''agent_execution_error. Error: ''
          @ ''Missing 'gdrive_file_id' in context for create operation.''),
        progress ''codegen'' (''[ERROR] A critical error occurred during the self-correction ''
          @ ''process: maximum recursion depth exceeded''),
        progress ''codegen'' ''[INFO] Self-correction attempt for codegen completed.'']"
  by (simp add: correction_ends(1) fix_body_missing_id
        self_correct_reenters [OF _ _ fix_body_missing_id] self_correct_at_limit
        critical_def tag_def)

text \<open>
  Claim C7, amended: recursive self-correction is possible and the call chain has no depth
  bound of its own. Suppose the Fix agent built for an agent can be constructed and
  started, and its lifecycle fails on every task. Then \<^verbatim>\<open>agent_self_correct\<close> runs the Fix
  agent on the fix task and forwards its stream, and the handler of \<^verbatim>\<open>FixAgent.run\<close> enters
  \<^verbatim>\<open>agent_self_correct\<close> again, for the Fix agent itself, passing on the task, the context
  and the error text and no count of attempts. Nothing but the interpreter stops the
  nesting: for every recursion limit \<open>n\<close> at least \<open>n\<close> Fix agents are started within one
  correction, and the stream carries the critical-error chunk for the
  \<^verbatim>\<open>RecursionError\<close> that the coordinator's \<^verbatim>\<open>except Exception\<close> caught. At that point the
  correction ends normally: its termination is guaranteed by the interpreter's limit, not
  by the call chain.
\<close>

theorem C7_correction_bounded_only_by_the_interpreter:
  assumes "agent_base_init e (ag\<lparr>kind := Fix\<rparr>) = None"
    and "update_context e (ag\<lparr>kind := Fix\<rparr>) ctx = None"
    and "\<forall>t. \<exists>evs ex. fix_body e (ag\<lparr>kind := Fix\<rparr>) t ctx = (evs, Inl ex)"
  shows "(\<exists>evs ex.
            fix_body e (ag\<lparr>kind := Fix\<rparr>) (fix_task_of e ag task ctx details error_type guidance) ctx
              = (evs, Inl ex)
          \<and> fst (agent_self_correct (Suc n) e ag task ctx details error_type guidance) =
              Yield (progress (name ag)
                (''[INFO] Initiating self-correction for '' @ name ag @ '' due to '' @ error_type
                   @ ''. Error: '' @ details))
              # Yield (progress (name ag)
                  (tag ag @ '' Starting code fixing task: ''
                     @ fix_task_of e ag task ctx details error_type guidance))
              # evs
              @ Yield (progress (name ag)
                  (tag ag @ '' Self-correction triggered due to error: '' @ exn_str ex))
              # fst (agent_self_correct n e (ag\<lparr>kind := Fix\<rparr>)
                       (fix_task_of e ag task ctx details error_type guidance) ctx (exn_str ex)
                       ''agent_execution_error''
                       ''The agent failed during code fixing or validation. Analyze the error and context to provide a fix.'')
              @ [Yield (progress (name ag)
                   (''[INFO] Self-correction attempt for '' @ name ag @ '' completed.''))])
       \<and> agent_self_correct 0 e ag task ctx details error_type guidance =
           ([Yield (progress (name ag)
               (''[INFO] Initiating self-correction for '' @ name ag @ '' due to '' @ error_type
                  @ ''. Error: '' @ details)),
             Yield (progress (name ag)
               (''[ERROR] A critical error occurred during the self-correction process: ''
                  @ ''maximum recursion depth exceeded''))], Completed)
       \<and> snd (agent_self_correct n e ag task ctx details error_type guidance) = Completed
       \<and> n \<le> fix_starts ag (fst (agent_self_correct n e ag task ctx details error_type guidance))
       \<and> Yield (progress (name ag)
               (''[ERROR] A critical error occurred during the self-correction process: ''
                  @ ''maximum recursion depth exceeded''))
            \<in> set (fst (agent_self_correct n e ag task ctx details error_type guidance))"
proof -
  obtain evs ex where
    body: "fix_body e (ag\<lparr>kind := Fix\<rparr>) (fix_task_of e ag task ctx details error_type guidance) ctx
             = (evs, Inl ex)"
    using assms(3) by blast
  note re = self_correct_reenters [OF assms(1,2) body, of n]
  note lim = self_correct_at_limit [OF assms(1), of task ctx details error_type guidance]
  note deep = nesting_reaches_limit [OF assms, of ag n task details error_type guidance]
  show ?thesis
    using body re lim deep
    by (simp add: correction_ends(1) critical_def)
qed

theorem C7_correction_bounded_only_by_the_interpreter_witness:
  "(agent_base_init (stub_env silent ''{}'') ((sample_agent CodeGen ''codegen'')\<lparr>kind := Fix\<rparr>) = None
    \<and> update_context (stub_env silent ''{}'') ((sample_agent CodeGen ''codegen'')\<lparr>kind := Fix\<rparr>)
        Map.empty = None
    \<and> (\<forall>t. \<exists>evs ex. fix_body (stub_env silent ''{}'')
          ((sample_agent CodeGen ''codegen'')\<lparr>kind := Fix\<rparr>) t Map.empty = (evs, Inl ex)))
   \<and> snd (agent_self_correct 7 (stub_env silent ''{}'') (sample_agent CodeGen ''codegen'') ''T''
          Map.empty ''LLM response was empty or contained an error.'' ''agent_execution_error''
          ''Analyze the error.'') = Completed
   \<and> 7 \<le> fix_starts (sample_agent CodeGen ''codegen'')
          (fst (agent_self_correct 7 (stub_env silent ''{}'') (sample_agent CodeGen ''codegen'')
             ''T'' Map.empty ''LLM response was empty or contained an error.''
             ''agent_execution_error'' ''Analyze the error.''))
   \<and> Yield (progress ''codegen''
        (''[ERROR] A critical error occurred during the self-correction process: ''
           @ ''maximum recursion depth exceeded''))
       \<in> set (fst (agent_self_correct 7 (stub_env silent ''{}'') (sample_agent CodeGen ''codegen'')
             ''T'' Map.empty ''LLM response was empty or contained an error.''
             ''agent_execution_error'' ''Analyze the error.''))"
  using C7_correction_bounded_only_by_the_interpreter [of "stub_env silent ''{}''"
          "sample_agent CodeGen ''codegen''" Map.empty "''T''"
          "''LLM response was empty or contained an error.''"
          "''agent_execution_error''" "''Analyze the error.''" 7]
  by (simp add: fix_body_missing_id)


section \<open>Postconditions of the lifecycles\<close>

lemma gives_bind:
  assumes "\<And>x. snd m = Inr x \<Longrightarrow> gives (\<lambda>evs. Q (fst m @ evs)) (f x)"
  shows "gives Q (bind m f)"
  using assms
  by (cases m; cases "snd m") (auto simp: gives_def bind_def split: prod.splits sum.splits)

lemma gives_raise [simp]: "gives Q (py_raise ex)"
  by (simp add: gives_def py_raise_def)

lemma gives_ret [simp]: "gives Q (ret out) = Q [] out"
  by (simp add: gives_def ret_def)

lemma gives_forward [simp]:
  "gives Q (forward (agent_self_correct n e ag t ctx d ty g)) =
     Q (fst (agent_self_correct n e ag t ctx d ty g)) (snd (agent_self_correct n e ag t ctx d ty g))"
  by (simp add: forward_self_correct gives_def)

lemma fst_emit [simp]: "fst (emit ev) = [ev]" "snd (emit ev) = Inr ()"
  by (simp_all add: emit_def)

lemma gives_if:
  "(c \<Longrightarrow> gives Q a) \<Longrightarrow> (\<not> c \<Longrightarrow> gives Q b) \<Longrightarrow> gives Q (if c then a else b)"
  by simp

lemma gives_case_prod:
  "(\<And>a b. x = (a, b) \<Longrightarrow> gives Q (f a b)) \<Longrightarrow> gives Q (case x of (a, b) \<Rightarrow> f a b)"
  by (cases x) simp

lemma test_body_post:
  assumes "R Completed"
    and "\<And>t d ty g. R (snd (agent_self_correct n e ag t ctx d ty g))"
  shows "gives (\<lambda>evs out. chunks evs \<noteq> [] \<and> R out) (test_body n e ag task ctx op)"
  unfolding test_body_def Let_def
  by (intro gives_bind gives_if gives_case_prod; simp add: assms)

lemma test_run_post:
  assumes "update_context e ag ctx = None"
    and "R Completed"
    and "\<And>t d ty g. R (snd (agent_self_correct n e ag t ctx d ty g))"
  shows "chunks (fst (test_run n e ag task ctx)) \<noteq> [] \<and> R (snd (test_run n e ag task ctx))"
proof -
  let ?op = "dict_get ctx ''operation_type'' (PStr ''generate_tests'')"
  obtain evs r where b: "test_body n e ag task ctx ?op = (evs, r)"
    by (cases "test_body n e ag task ctx ?op")
  show ?thesis
  proof (cases r)
    case (Inl ex)
    obtain evs1 out1 where h1: "agent_self_correct n e ag task ctx (exn_str ex) ''validation_error''
        ''A data validation or key error occurred. Check the context data and the agent's logic.''
        = (evs1, out1)"
      by (rule prod.exhaust)
    obtain evs2 out2 where h2: "agent_self_correct n e ag task ctx (exn_str ex) ''unhandled_exception''
        ''An unexpected error occurred. Analyze the stack trace and context to find the root cause.''
        = (evs2, out2)"
      by (rule prod.exhaust)
    have "R out1" "R out2"
      using assms(3) [of task "exn_str ex"] h1 h2 by (metis snd_conv)+
    with b Inl assms(1) h1 h2 show ?thesis
      by (simp add: test_run_def Let_def)
  next
    case (Inr out)
    with b test_body_post [of R n e ag ctx task ?op, OF assms(2,3)]
    have "chunks evs \<noteq> [] \<and> R out"
      by (simp add: gives_def)
    with b Inr assms(1) show ?thesis
      by (simp add: test_run_def Let_def)
  qed
qed

lemma guarded_post:
  assumes "update_context e ag ctx = None"
    and "R Completed"
    and "\<And>ex. R (snd (handler ex))"
  shows "chunks (fst (guarded e ag ctx msg body handler)) \<noteq> []
         \<and> R (snd (guarded e ag ctx msg body handler))"
proof -
  obtain evs r where b: "body = (evs, r)" by (cases body)
  show ?thesis
  proof (cases r)
    case (Inl ex)
    then show ?thesis
      using assms(3) [of ex] by (simp add: guarded_Inl [OF assms(1) b [unfolded Inl]])
  next
    case (Inr u)
    then show ?thesis
      using assms(2) by (simp add: guarded_Inr [OF assms(1) b [unfolded Inr]])
  qed
qed

lemma agent_run_post:
  assumes "update_context e ag ctx = None"
    and "R Completed"
    and "\<And>t d ty g. R (snd (agent_self_correct n e ag t ctx d ty g))"
  shows "chunks (fst (agent_run n e ag task ctx)) \<noteq> [] \<and> R (snd (agent_run n e ag task ctx))"
proof (cases "kind ag")
  case Test
  then show ?thesis using test_run_post [of e ag ctx R, OF assms] by (simp add: agent_run_def)
qed (use guarded_post [of e ag ctx R, OF assms(1,2)] assms(3) in
      \<open>simp_all add: agent_run_def codegen_run_def doc_run_def planner_run_def qa_run_def\<close>)


lemma agent_run_ends: "snd (agent_run n e ag t ctx) \<noteq> Unfinished"
proof (cases "update_context e ag ctx")
  case None
  have "snd (agent_run n e ag t ctx) = Completed"
    using agent_run_post [of e ag ctx "\<lambda>out. out = Completed" n t, OF None]
    by (simp add: correction_ends(1))
  then show ?thesis by simp
next
  case (Some ex)
  then show ?thesis
    by (cases "kind ag")
       (simp_all add: agent_run_def codegen_run_def doc_run_def planner_run_def qa_run_def
          test_run_def guarded_def)
qed

lemma valid_fixed [simp]: "\<not> response_invalid ''fixed''"
  by (simp add: response_invalid_def strip_def isspace_def)

lemma sample_agent_kind [simp]: "(sample_agent k nm)\<lparr>kind := k'\<rparr> = sample_agent k' nm"
  by (simp add: sample_agent_def)



section \<open>Workflows\<close>

lemma and_then_simps [simp]:
  "and_then evs (evs', ctx, fin) = (evs @ evs', ctx, fin)"
  by (simp add: and_then_def)

lemma and_then_and_then [simp]: "and_then xs (and_then ys r) = and_then (xs @ ys) r"
  by (cases r) simp

lemma and_then_Nil [simp]: "and_then [] r = r"
  by (cases r) simp

lemma accumulate_foldl:
  "foldl (\<lambda>final_output chunk.
      if \<not> startswith chunk ''STREAM_CHUNK:'' then final_output @ chunk else final_output) acc cs
   = acc @ concat (filter (\<lambda>c. \<not> is_progress c) cs)"
  by (induction cs arbitrary: acc) (simp_all add: is_progress_def)

lemma accumulate_payload: "accumulate evs = concat (payload_chunks evs)"
  by (simp add: accumulate_def payload_chunks_def accumulate_foldl)

lemma run_steps_bad_agent:
  "or_empty (step_agent s) = [] \<Longrightarrow>
   run_steps run reg i ctx (s # rest) =
     and_then [Send (''[ERROR] Skipping invalid task '' @ sq (task_name_of i s)
                       @ '': missing agent type.'')]
       (run_steps run reg (Suc i) ctx rest)"
  by (simp add: Let_def)

lemma run_steps_bad_task:
  "or_empty (step_agent s) \<noteq> [] \<Longrightarrow> or_empty (step_task s) = [] \<Longrightarrow>
   run_steps run reg i ctx (s # rest) =
     and_then [Send (''[ERROR] Skipping invalid task '' @ sq (task_name_of i s)
                       @ '': missing task description.'')]
       (run_steps run reg (Suc i) ctx rest)"
  by (simp add: Let_def)

lemma run_steps_unknown_agent:
  "or_empty (step_agent s) \<noteq> [] \<Longrightarrow> or_empty (step_task s) \<noteq> [] \<Longrightarrow>
   reg (or_empty (step_agent s)) = None \<Longrightarrow>
   run_steps run reg i ctx (s # rest) =
     and_then [Send (''[ERROR] Agent '' @ sq (or_empty (step_agent s)) @ '' not found for task ''
                       @ sq (task_name_of i s) @ ''.'')]
       (run_steps run reg (Suc i) ctx rest)"
  by (simp add: Let_def)



lemma run_steps_resolved:
  "or_empty (step_agent s) \<noteq> [] \<Longrightarrow> or_empty (step_task s) \<noteq> [] \<Longrightarrow>
   reg (or_empty (step_agent s)) = Some ag \<Longrightarrow>
   execute_task run ag (or_empty (step_task s)) ctx = (evs, fin) \<Longrightarrow>
   run_steps run reg i ctx (s # rest) =
     (if fin then
        and_then
          (Send (''[INFO] Executing task '' @ sq (task_name_of i s) @ '' with agent ''
                   @ sq (or_empty (step_agent s)) @ ''.'') # map deliver evs)
          (run_steps run reg (Suc i)
             (ctx(or_empty (step_agent s) @ ''_output'' \<mapsto> PStr (accumulate evs))) rest)
      else
        (Send (''[INFO] Executing task '' @ sq (task_name_of i s) @ '' with agent ''
                 @ sq (or_empty (step_agent s)) @ ''.'') # map deliver evs, ctx, False))"
  by (cases fin) (simp_all add: Let_def)

declare run_steps.simps(2) [simp del]

lemma append_after_and_then:
  assumes "r = (evs, ctx', fin)"
  shows "(case and_then xs r of
            (evs, ctx', True) \<Rightarrow> and_then evs (f ctx')
          | (evs, ctx', False) \<Rightarrow> (evs, ctx', False))
         = and_then xs (case r of
            (evs, ctx', True) \<Rightarrow> and_then evs (f ctx')
          | (evs, ctx', False) \<Rightarrow> (evs, ctx', False))"
  using assms by (cases fin) simp_all

lemma run_steps_append:
  "run_steps run reg i ctx (xs @ ys) =
     (case run_steps run reg i ctx xs of
        (evs, ctx', True) \<Rightarrow> and_then evs (run_steps run reg (i + length xs) ctx' ys)
      | (evs, ctx', False) \<Rightarrow> (evs, ctx', False))"
proof (induction xs arbitrary: i ctx)
  case Nil
  show ?case by simp
next
  case (Cons s xs)
  have len: "i + length (s # xs) = Suc i + length xs" by simp
  have step: "(case and_then pre (run_steps run reg (Suc i) c xs) of
            (evs, ctx', True) \<Rightarrow> and_then evs (run_steps run reg (Suc i + length xs) ctx' ys)
          | (evs, ctx', False) \<Rightarrow> (evs, ctx', False))
         = and_then pre (run_steps run reg (Suc i) c (xs @ ys))" for pre c
    unfolding Cons.IH
    by (rule append_after_and_then [of _ "fst (run_steps run reg (Suc i) c xs)"
          "fst (snd (run_steps run reg (Suc i) c xs))" "snd (snd (run_steps run reg (Suc i) c xs))"])
       simp
  consider (a) "or_empty (step_agent s) = []"
    | (b) "or_empty (step_agent s) \<noteq> []" "or_empty (step_task s) = []"
    | (c) "or_empty (step_agent s) \<noteq> []" "or_empty (step_task s) \<noteq> []"
          "reg (or_empty (step_agent s)) = None"
    | (d) ag where "or_empty (step_agent s) \<noteq> []" "or_empty (step_task s) \<noteq> []"
          "reg (or_empty (step_agent s)) = Some ag"
    by blast
  then show ?case
  proof cases
    case a
    show ?thesis
      unfolding len append_Cons run_steps_bad_agent [OF a] step ..
  next
    case b
    show ?thesis
      unfolding len append_Cons run_steps_bad_task [OF b] step ..
  next
    case c
    show ?thesis
      unfolding len append_Cons run_steps_unknown_agent [where reg = reg, OF c] step ..
  next
    case d
    obtain evs fin where ex: "execute_task run ag (or_empty (step_task s)) ctx = (evs, fin)"
      by (cases "execute_task run ag (or_empty (step_task s)) ctx")
    show ?thesis
    proof (cases fin)
      case True
      show ?thesis
        unfolding len append_Cons run_steps_resolved [where reg = reg and run = run, OF d ex] using True by (simp add: step)
    next
      case False
      show ?thesis
        unfolding len append_Cons run_steps_resolved [where reg = reg and run = run, OF d ex] using False by simp
    qed
  qed
qed


lemma execute_task_ends:
  "snd (run ag t c) \<noteq> Unfinished \<Longrightarrow> snd (execute_task run ag t c)"
  by (cases "run ag t c"; cases "snd (run ag t c)") (auto simp: execute_task_def)

lemma snd_and_then [simp]: "snd (snd (and_then evs r)) = snd (snd r)"
  by (cases r) simp

lemma ctx_and_then [simp]: "fst (snd (and_then evs r)) = fst (snd r)"
  by (cases r) simp

lemma steps_cases:
  obtains (no_agent) "or_empty (step_agent s) = []"
    | (no_task) "or_empty (step_agent s) \<noteq> []" "or_empty (step_task s) = []"
    | (unknown) "or_empty (step_agent s) \<noteq> []" "or_empty (step_task s) \<noteq> []"
          "reg (or_empty (step_agent s)) = None"
    | (resolved) ag evs fin where "or_empty (step_agent s) \<noteq> []" "or_empty (step_task s) \<noteq> []"
          "reg (or_empty (step_agent s)) = Some ag"
          "execute_task run ag (or_empty (step_task s)) ctx = (evs, fin)"
  by (cases "execute_task run (the (reg (or_empty (step_agent s)))) (or_empty (step_task s)) ctx")
     force

lemma run_steps_keeps:
  assumes "\<forall>s \<in> set steps. or_empty (step_agent s) \<noteq> a"
  shows "fst (snd (run_steps run reg i ctx steps)) (a @ ''_output'') = ctx (a @ ''_output'')"
  using assms
proof (induction steps arbitrary: i ctx)
  case Nil
  show ?case by simp
next
  case (Cons s steps)
  then have IH: "\<And>i ctx. fst (snd (run_steps run reg i ctx steps)) (a @ ''_output'')
                     = ctx (a @ ''_output'')"
    and other: "or_empty (step_agent s) \<noteq> a"
    by simp_all
  show ?case
  proof (cases rule: steps_cases [where s = s and reg = reg and run = run and ctx = ctx])
    case no_agent
    then show ?thesis by (simp add: run_steps_bad_agent IH)
  next
    case no_task
    then show ?thesis by (simp add: run_steps_bad_task IH)
  next
    case unknown
    then show ?thesis by (simp add: run_steps_unknown_agent [where reg = reg] IH)
  next
    case (resolved ag evs fin)
    show ?thesis
      using other
      by (cases fin)
         (simp_all add: run_steps_resolved [where reg = reg and run = run, OF resolved] IH)
  qed
qed

lemma step_contributes:
  assumes "\<forall>ag t c. snd (run ag t c) \<noteq> Unfinished"
  shows "\<exists>tr ctx'. step_ok run reg i s ctx tr ctx'
           \<and> run_steps run reg i ctx (s # rest) = and_then tr (run_steps run reg (Suc i) ctx' rest)"
proof (cases rule: steps_cases [where s = s and reg = reg and run = run and ctx = ctx])
  case no_agent
  then show ?thesis by (simp add: run_steps_bad_agent step_ok_def)
next
  case no_task
  then show ?thesis by (simp add: run_steps_bad_task step_ok_def)
next
  case unknown
  then show ?thesis by (simp add: run_steps_unknown_agent [where reg = reg] step_ok_def)
next
  case (resolved ag evs fin)
  have "fin"
    using execute_task_ends [of run ag "or_empty (step_task s)" ctx] assms resolved by simp
  then show ?thesis
    using resolved
    by (simp add: run_steps_resolved [where reg = reg and run = run, OF resolved] step_ok_def)
qed

lemma run_steps_traces:
  assumes "\<forall>ag t c. snd (run ag t c) \<noteq> Unfinished"
  shows "\<exists>traces ctxs.
           length traces = length steps \<and> length ctxs = Suc (length steps) \<and> ctxs ! 0 = ctx
         \<and> run_steps run reg i ctx steps = (concat traces, ctxs ! length steps, True)
         \<and> (\<forall>k<length steps.
              step_ok run reg (i + k) (steps ! k) (ctxs ! k) (traces ! k) (ctxs ! Suc k))"
proof (induction steps arbitrary: i ctx)
  case Nil
  show ?case
    by (rule exI [of _ "[]"], rule exI [of _ "[ctx]"]) simp
next
  case (Cons s steps)
  obtain tr ctx' where ok: "step_ok run reg i s ctx tr ctx'"
    and eq: "run_steps run reg i ctx (s # steps) = and_then tr (run_steps run reg (Suc i) ctx' steps)"
    using step_contributes [OF assms] by blast
  obtain traces ctxs where len: "length traces = length steps" "length ctxs = Suc (length steps)"
    and first: "ctxs ! 0 = ctx'"
    and run: "run_steps run reg (Suc i) ctx' steps = (concat traces, ctxs ! length steps, True)"
    and each: "\<forall>k<length steps.
                 step_ok run reg (Suc i + k) (steps ! k) (ctxs ! k) (traces ! k) (ctxs ! Suc k)"
    using Cons.IH [where i = "Suc i" and ctx = ctx'] by blast
  have "step_ok run reg (i + k) ((s # steps) ! k) ((ctx # ctxs) ! k) ((tr # traces) ! k)
          ((ctx # ctxs) ! Suc k)" if "k < length (s # steps)" for k
  proof (cases k)
    case 0
    then show ?thesis using ok first by simp
  next
    case (Suc j)
    then show ?thesis using each that by simp
  qed
  then show ?case
    using len eq run
    by (intro exI [of _ "tr # traces"] exI [of _ "ctx # ctxs"]) simp
qed

text \<open>
  Claim C3. For every workflow, whatever the agents' collaborators do and whatever the
  recursion limit, \<^verbatim>\<open>run_workflow\<close> ends, and what it sends is the opening message, then
  the contribution of every step of the workflow, one after the other in the order of the
  workflow, then the message \<^verbatim>\<open>[INFO] Workflow execution complete.\<close> The contribution of
  step \<open>k\<close> starts from the context the steps before it have left and is what the
  specification says of one step: a step whose agent type is missing, whose task
  description is missing, or whose agent type is not in the registry contributes exactly
  one error message and changes nothing, and the steps after it are run all the same. The
  context after the last step is the context of the orchestrator.
\<close>

theorem C3_bad_steps_never_abort:
  "\<exists>traces ctxs.
      length traces = length workflow \<and> length ctxs = Suc (length workflow)
    \<and> ctxs ! 0 = initial_context e workflow
    \<and> run_workflow (agent_run n e) e h orch workflow =
        (Send ''[INFO] Starting workflow execution...'' # concat traces
           @ [Send ''[INFO] Workflow execution complete.''],
         orch\<lparr>orch_context := ctxs ! length workflow\<rparr>, True)
    \<and> (\<forall>k<length workflow.
         step_ok (agent_run n e) (h (orch_agents orch)) k (workflow ! k) (ctxs ! k) (traces ! k)
           (ctxs ! Suc k))"
proof -
  have "\<forall>ag t c. snd (agent_run n e ag t c) \<noteq> Unfinished"
    by (simp add: agent_run_ends)
  from run_steps_traces [OF this, of workflow "initial_context e workflow" "h (orch_agents orch)" 0]
  obtain traces ctxs where
    "length traces = length workflow" "length ctxs = Suc (length workflow)"
    "ctxs ! 0 = initial_context e workflow"
    "run_steps (agent_run n e) (h (orch_agents orch)) 0 (initial_context e workflow) workflow
       = (concat traces, ctxs ! length workflow, True)"
    "\<forall>k<length workflow.
       step_ok (agent_run n e) (h (orch_agents orch)) k (workflow ! k) (ctxs ! k) (traces ! k)
         (ctxs ! Suc k)"
    by auto
  then show ?thesis
    by (intro exI [of _ traces] exI [of _ ctxs]) (simp add: run_workflow_def)
qed

lemma codegen_registry:
  "get_agent (fst (codegen_system (stub_env llm txt))) (snd (codegen_system (stub_env llm txt))) a =
     (if a = ''codegen'' then Some (sample_agent CodeGen ''codegen'') else None)"
  by (simp add: codegen_system_def init_def load_agents_def get_agent_def Let_def
        agent_class_map_def sample_agent_def)

lemma codegen_run_success:
  assumes "update_context e ag ctx = None"
    and "construct_prompt e ag
              (dict_get (config ag) ''codegen_template'' (PStr ''base_codegen_prompt.txt''))
              [(''task'', PStr task),
               (''current_context'', dict_get ctx ''current_context'' (PStr [])),
               (''requirements'', dict_get ctx ''requirements'' (PStr [])),
               (''language'', dict_get ctx ''language'' (PStr ''Python'')),
               (''file_to_modify'', dict_get ctx ''file_to_modify'' (PStr []))] = Inr prompt"
    and "execute_llm_workflow e ag prompt task ctx = (buffered, None)"
    and "\<not> response_invalid (concat buffered)"
    and "enforce_agent_rules e ag (concat buffered) task ctx = Inr []"
  shows "codegen_run n e ag task ctx =
     ([Yield (progress (name ag) (tag ag @ '' Starting code generation task: '' @ task)),
       Yield (progress (name ag) (tag ag @ '' Generating code...'')),
       Yield (progress (name ag) (tag ag @ '' Validating response...'')),
       Yield (progress (name ag) (tag ag @ '' Validation passed. Streaming now...'')),
       Yield (concat buffered),
       Yield (progress (name ag) (''[SUCCESS] '' @ tag ag @ '' Task completed successfully.''))],
      Completed)"
proof -
  have "codegen_body e ag task ctx =
     ([Yield (progress (name ag) (tag ag @ '' Generating code...'')),
       Yield (progress (name ag) (tag ag @ '' Validating response...'')),
       Yield (progress (name ag) (tag ag @ '' Validation passed. Streaming now...'')),
       Yield (concat buffered),
       Yield (progress (name ag) (''[SUCCESS] '' @ tag ag @ '' Task completed successfully.''))],
      Inr ())"
    using assms(2-5)
    by (simp add: codegen_body_def buffer_llm_def validate_response_def act_norm)
  then show ?thesis
    by (simp add: codegen_run_def guarded_Inr [OF assms(1)])
qed

lemma valid_ok [simp]: "\<not> response_invalid ''ok''"
  by (simp add: response_invalid_def strip_def isspace_def)

lemma show_nat_2 [simp]: "show_nat 2 = ''2''"
  by code_simp

theorem C3_bad_steps_never_abort_witness:
  "\<exists>traces ctxs.
      length traces = 3 \<and> length ctxs = 4
    \<and> run_workflow (agent_run 1 (stub_env steady ''{}'')) (stub_env steady ''{}'')
          (fst (codegen_system (stub_env steady ''{}'')))
          (snd (codegen_system (stub_env steady ''{}''))) demo_workflow =
        (Send ''[INFO] Starting workflow execution...'' # concat traces
           @ [Send ''[INFO] Workflow execution complete.''],
         (snd (codegen_system (stub_env steady ''{}'')))\<lparr>orch_context := ctxs ! 3\<rparr>, True)
    \<and> traces ! 1 = [Send ''[ERROR] Agent 'missing' not found for task 'Task 2'.'']
    \<and> ctxs ! 2 = ctxs ! 1
    \<and> hd (traces ! 2) = Send ''[INFO] Executing task 'last' with agent 'codegen'.''"
proof -
  let ?e = "stub_env steady ''{}''"
  have missing: "fst (codegen_system ?e) (orch_agents (snd (codegen_system ?e))) ''missing'' = None"
    and codegen: "fst (codegen_system ?e) (orch_agents (snd (codegen_system ?e))) ''codegen''
                    = Some (sample_agent CodeGen ''codegen'')"
    using codegen_registry [of steady "''{}''" "''missing''"]
      codegen_registry [of steady "''{}''" "''codegen''"]
    by (simp_all add: get_agent_def)
  obtain traces ctxs where len: "length traces = length demo_workflow"
      "length ctxs = Suc (length demo_workflow)"
    and run: "run_workflow (agent_run 1 ?e) ?e (fst (codegen_system ?e)) (snd (codegen_system ?e))
                demo_workflow =
        (Send ''[INFO] Starting workflow execution...'' # concat traces
           @ [Send ''[INFO] Workflow execution complete.''],
         (snd (codegen_system ?e))\<lparr>orch_context := ctxs ! length demo_workflow\<rparr>, True)"
    and each: "\<forall>k<length demo_workflow.
         step_ok (agent_run 1 ?e) (fst (codegen_system ?e) (orch_agents (snd (codegen_system ?e))))
           k (demo_workflow ! k) (ctxs ! k) (traces ! k) (ctxs ! Suc k)"
    using C3_bad_steps_never_abort [of demo_workflow ?e 1 "fst (codegen_system ?e)"
            "snd (codegen_system ?e)"]
    by blast
  have l3: "length demo_workflow = 3"
    by (simp add: demo_workflow_def)
  have "step_ok (agent_run 1 ?e) (fst (codegen_system ?e) (orch_agents (snd (codegen_system ?e))))
       1 (demo_workflow ! 1) (ctxs ! 1) (traces ! 1) (ctxs ! Suc 1)"
    and "step_ok (agent_run 1 ?e) (fst (codegen_system ?e) (orch_agents (snd (codegen_system ?e))))
       2 (demo_workflow ! 2) (ctxs ! 2) (traces ! 2) (ctxs ! Suc 2)"
    using each [rule_format, of 1] each [rule_format, of 2] l3 by simp_all
  then have "traces ! 1 = [Send ''[ERROR] Agent 'missing' not found for task 'Task 2'.'']
           \<and> ctxs ! 2 = ctxs ! 1
           \<and> hd (traces ! 2) = Send ''[INFO] Executing task 'last' with agent 'codegen'.''"
    by (simp add: step_ok_def demo_workflow_def or_empty_def task_name_of_def sq_def missing codegen
          del: One_nat_def)
  with len run l3 show ?thesis
    by (intro exI [of _ traces] exI [of _ ctxs]) simp
qed


section \<open>Context merge\<close>

lemma not_progress_hash [simp]: "\<not> is_progress (CHR ''#'' # s)"
  by (simp add: is_progress_def startswith_def)

lemma valid_hash [simp]:
  "\<not> py_in ''[ERROR]'' task \<Longrightarrow> \<not> response_invalid (CHR ''#'' # CHR '' '' # task)"
  by (auto simp: response_invalid_def strip_def isspace_def)

lemma echo_codegen_run:
  "\<not> py_in ''[ERROR]'' task \<Longrightarrow>
   agent_run n (stub_env echo txt) (sample_agent CodeGen ''codegen'') task c =
     ([Yield (progress ''codegen'' (''[codegen] Starting code generation task: '' @ task)),
       Yield (progress ''codegen'' ''[codegen] Generating code...''),
       Yield (progress ''codegen'' ''[codegen] Validating response...''),
       Yield (progress ''codegen'' ''[codegen] Validation passed. Streaming now...''),
       Yield (''# '' @ task),
       Yield (progress ''codegen'' ''[SUCCESS] [codegen] Task completed successfully.'')],
      Completed)"
  by (simp add: agent_run_def codegen_run_success [where buffered = "[''# '', task]"] echo_def
        tag_def)

lemma echo_execute_task:
  "\<not> py_in ''[ERROR]'' task \<Longrightarrow>
   execute_task (agent_run n (stub_env echo txt)) (sample_agent CodeGen ''codegen'') task c =
     ([Yield (progress ''codegen'' (''[codegen] Starting code generation task: '' @ task)),
       Yield (progress ''codegen'' ''[codegen] Generating code...''),
       Yield (progress ''codegen'' ''[codegen] Validating response...''),
       Yield (progress ''codegen'' ''[codegen] Validation passed. Streaming now...''),
       Yield (''# '' @ task),
       Yield (progress ''codegen'' ''[SUCCESS] [codegen] Task completed successfully.'')],
      True)"
  by (simp add: execute_task_def echo_codegen_run)


lemma run_steps_resolved_ctx:
  assumes "or_empty (step_agent s) \<noteq> []" "or_empty (step_task s) \<noteq> []"
    and "reg (or_empty (step_agent s)) = Some ag"
    and "execute_task run ag (or_empty (step_task s)) ctx = (evs, True)"
  shows "snd (run_steps run reg i ctx (s # rest)) =
         snd (run_steps run reg (Suc i)
                (ctx(or_empty (step_agent s) @ ''_output'' \<mapsto> PStr (concat (payload_chunks evs))))
                rest)"
  by (simp add: run_steps_resolved [where reg = reg and run = run, OF assms] accumulate_payload
        and_then_def split: prod.splits)

lemma echo_payload:
  "\<not> py_in ''[ERROR]'' task \<Longrightarrow>
   concat (payload_chunks (fst (execute_task (agent_run n (stub_env echo txt))
      (sample_agent CodeGen ''codegen'') task c))) = ''# '' @ task"
  by (simp add: echo_execute_task payload_chunks_def)


lemma py_in_A [simp]: "\<not> py_in ''[ERROR]'' ''A''" "\<not> py_in ''[ERROR]'' ''B''"
  by simp_all

lemma echo_twice:
  fixes c :: pydict
  defines "R \<equiv> agent_run 1 (stub_env echo ''{}'')"
    and "reg \<equiv> fst (codegen_system (stub_env echo ''{}''))
                  (orch_agents (snd (codegen_system (stub_env echo ''{}''))))"
  shows "snd (run_steps R reg 0 c twice_workflow) = (c(''codegen_output'' \<mapsto> PStr ''# B''), True)"
proof -
  let ?ag = "sample_agent CodeGen ''codegen''"
  let ?s1 = "\<lparr>step_name = None, step_agent = Some ''codegen'', step_task = Some ''A''\<rparr>"
  let ?s2 = "\<lparr>step_name = None, step_agent = Some ''codegen'', step_task = Some ''B''\<rparr>"
  have reg: "reg ''codegen'' = Some ?ag"
    using codegen_registry [of echo "''{}''" "''codegen''"] by (simp add: get_agent_def reg_def)
  have e1: "execute_task R ?ag ''A'' c = (fst (execute_task R ?ag ''A'' c), True)"
    unfolding R_def by (simp add: echo_execute_task del: One_nat_def)
  have p1: "concat (payload_chunks (fst (execute_task R ?ag ''A'' c))) = ''# A''"
    unfolding R_def using echo_payload [of "''A''" 1 "''{}''" c] by simp
  let ?c1 = "c(''codegen_output'' \<mapsto> PStr ''# A'')"
  have e2: "execute_task R ?ag ''B'' ?c1 = (fst (execute_task R ?ag ''B'' ?c1), True)"
    unfolding R_def by (simp add: echo_execute_task del: One_nat_def)
  have p2: "concat (payload_chunks (fst (execute_task R ?ag ''B'' ?c1))) = ''# B''"
    unfolding R_def using echo_payload [of "''B''" 1 "''{}''" ?c1] by simp
  have "snd (run_steps R reg 0 c (?s1 # [?s2])) = snd (run_steps R reg (Suc 0) ?c1 [?s2])"
    using run_steps_resolved_ctx [of ?s1 reg ?ag R c "fst (execute_task R ?ag ''A'' c)" 0 "[?s2]"]
      reg e1 p1
    by (simp add: or_empty_def)
  also have "\<dots> = snd (run_steps R reg (Suc (Suc 0)) (?c1(''codegen_output'' \<mapsto> PStr ''# B'')) [])"
    using run_steps_resolved_ctx [of ?s2 reg ?ag R ?c1 "fst (execute_task R ?ag ''B'' ?c1)" "Suc 0" "[]"]
      reg e2 p2
    by (simp add: or_empty_def)
  finally show ?thesis
    by (simp add: twice_workflow_def)
qed

lemma echo_twice_workflow:
  "snd (snd (run_workflow (agent_run 1 (stub_env echo ''{}'')) (stub_env echo ''{}'')
          (fst (codegen_system (stub_env echo ''{}'')))
          (snd (codegen_system (stub_env echo ''{}''))) twice_workflow))
   \<and> orch_context (fst (snd (run_workflow (agent_run 1 (stub_env echo ''{}'')) (stub_env echo ''{}'')
          (fst (codegen_system (stub_env echo ''{}'')))
          (snd (codegen_system (stub_env echo ''{}''))) twice_workflow))) ''codegen_output''
       = Some (PStr ''# B'')"
proof -
  let ?R = "agent_run 1 (stub_env echo ''{}'')"
  let ?reg = "fst (codegen_system (stub_env echo ''{}''))
                  (orch_agents (snd (codegen_system (stub_env echo ''{}''))))"
  let ?c = "initial_context (stub_env echo ''{}'') twice_workflow"
  obtain evs where "run_steps ?R ?reg 0 ?c twice_workflow
      = (evs, ?c(''codegen_output'' \<mapsto> PStr ''# B''), True)"
    using echo_twice [of ?c] by (cases "run_steps ?R ?reg 0 ?c twice_workflow") simp
  then show ?thesis
    by (simp add: run_workflow_def del: One_nat_def)
qed

text \<open>
  Claim C5, as stated: after \<^verbatim>\<open>run_workflow\<close> completes, for every step whose agent
  resolved, the context entry \<^verbatim>\<open><agentType>_output\<close> is the concatenation of that step's
  payload chunks. It fails when two steps name the same agent type: in a workflow of two
  code generation steps with tasks A and B, the run completes, the first step's payload
  is \<^verbatim>\<open># A\<close>, and the entry \<^verbatim>\<open>codegen_output\<close> is \<^verbatim>\<open># B\<close>.
\<close>

theorem C5_counterexample:
  "snd (snd (run_workflow (agent_run 1 (stub_env echo ''{}'')) (stub_env echo ''{}'')
          (fst (codegen_system (stub_env echo ''{}'')))
          (snd (codegen_system (stub_env echo ''{}''))) twice_workflow))
   \<and> orch_context (fst (snd (run_workflow (agent_run 1 (stub_env echo ''{}'')) (stub_env echo ''{}'')
          (fst (codegen_system (stub_env echo ''{}'')))
          (snd (codegen_system (stub_env echo ''{}''))) twice_workflow))) ''codegen_output''
       = Some (PStr ''# B'')
   \<and> concat (payload_chunks (fst (execute_task (agent_run 1 (stub_env echo ''{}''))
          (sample_agent CodeGen ''codegen'') ''A''
          (initial_context (stub_env echo ''{}'') twice_workflow)))) = ''# A''"
  using echo_twice_workflow
    echo_payload [of "''A''" 1 "''{}''" "initial_context (stub_env echo ''{}'') twice_workflow"]
  by simp

text \<open>
  Claim C5, amended: after \<^verbatim>\<open>run_workflow\<close> completes, for every step whose agent
  resolved and which is the last step of its agent type, the context entry
  \<^verbatim>\<open><agentType>_output\<close> is the in-order concatenation of the payload chunks of that step's
  stream (the stream \<^verbatim>\<open>_execute_task\<close> produced from the context the earlier steps left).
\<close>

theorem C5_context_holds_last_output:
  assumes wf: "run_workflow run e h orch (earlier @ s # later) = (tr, orch', True)"
    and agent: "or_empty (step_agent s) \<noteq> []"
    and task: "or_empty (step_task s) \<noteq> []"
    and found: "get_agent h orch (or_empty (step_agent s)) = Some ag"
    and last: "\<forall>s' \<in> set later. or_empty (step_agent s') \<noteq> or_empty (step_agent s)"
  shows "\<exists>tr_earlier ctx_s evs.
           run_steps run (h (orch_agents orch)) 0 (initial_context e (earlier @ s # later)) earlier
             = (tr_earlier, ctx_s, True)
           \<and> execute_task run ag (or_empty (step_task s)) ctx_s = (evs, True)
           \<and> orch_context orch' (or_empty (step_agent s) @ ''_output'')
             = Some (PStr (concat (payload_chunks evs)))"
proof -
  let ?reg = "h (orch_agents orch)"
  let ?c0 = "initial_context e (earlier @ s # later)"
  let ?k = "or_empty (step_agent s) @ ''_output''"
  have reg: "?reg (or_empty (step_agent s)) = Some ag"
    using found by (simp add: get_agent_def)
  obtain evs_all ctx' fin_all where
    all: "run_steps run ?reg 0 ?c0 (earlier @ s # later) = (evs_all, ctx', fin_all)"
    by (rule prod_cases3)
  have fin_all: "fin_all" and orch': "orch_context orch' = ctx'"
    using wf all by (cases fin_all; auto simp: run_workflow_def)+
  obtain tr_e ctx_s fin_e where
    pre: "run_steps run ?reg 0 ?c0 earlier = (tr_e, ctx_s, fin_e)"
    by (rule prod_cases3)
  have fin_e: "fin_e"
    using all fin_all pre by (cases fin_e) (simp_all add: run_steps_append)
  have rest: "snd (run_steps run ?reg (length earlier) ctx_s (s # later)) = (ctx', True)"
    using all fin_all pre fin_e
    by (cases "run_steps run ?reg (length earlier) ctx_s (s # later)")
       (simp add: run_steps_append)
  obtain evs fin where ex: "execute_task run ag (or_empty (step_task s)) ctx_s = (evs, fin)"
    by (cases "execute_task run ag (or_empty (step_task s)) ctx_s")
  have fin: "fin"
    using rest run_steps_resolved [where reg = ?reg and run = run, OF agent task reg ex,
        of "length earlier" later]
    by (cases fin) simp_all
  have "(ctx', True) = snd (run_steps run ?reg (Suc (length earlier))
                (ctx_s(?k \<mapsto> PStr (concat (payload_chunks evs)))) later)"
    using run_steps_resolved_ctx [where reg = ?reg and run = run, OF agent task reg
        ex [unfolded eqTrueI [OF fin]], of "length earlier" later] rest
    by simp
  then have "ctx' = fst (snd (run_steps run ?reg (Suc (length earlier))
                (ctx_s(?k \<mapsto> PStr (concat (payload_chunks evs)))) later))"
    by (metis fst_conv)
  then have "ctx' ?k = Some (PStr (concat (payload_chunks evs)))"
    using run_steps_keeps [OF last, of run ?reg "Suc (length earlier)"
        "ctx_s(?k \<mapsto> PStr (concat (payload_chunks evs)))"]
    by simp
  with pre fin_e ex fin orch' show ?thesis by simp
qed


theorem C5_context_holds_last_output_witness:
  "\<exists>tr_earlier ctx_s evs.
      run_steps (agent_run 1 (stub_env echo ''{}''))
        (fst (codegen_system (stub_env echo ''{}''))
           (orch_agents (snd (codegen_system (stub_env echo ''{}'')))))
        0 (initial_context (stub_env echo ''{}'') twice_workflow)
        [\<lparr>step_name = None, step_agent = Some ''codegen'', step_task = Some ''A''\<rparr>]
        = (tr_earlier, ctx_s, True)
      \<and> execute_task (agent_run 1 (stub_env echo ''{}'')) (sample_agent CodeGen ''codegen'') ''B'' ctx_s
        = (evs, True)
      \<and> orch_context (fst (snd (run_workflow (agent_run 1 (stub_env echo ''{}''))
            (stub_env echo ''{}'') (fst (codegen_system (stub_env echo ''{}'')))
            (snd (codegen_system (stub_env echo ''{}''))) twice_workflow))) ''codegen_output''
        = Some (PStr (concat (payload_chunks evs)))"
proof -
  let ?e = "stub_env echo ''{}''"
  let ?rw = "run_workflow (agent_run 1 ?e) ?e (fst (codegen_system ?e)) (snd (codegen_system ?e))
               twice_workflow"
  let ?s1 = "\<lparr>step_name = None, step_agent = Some ''codegen'', step_task = Some ''A''\<rparr>"
  let ?s2 = "\<lparr>step_name = None, step_agent = Some ''codegen'', step_task = Some ''B''\<rparr>"
  have wf: "run_workflow (agent_run 1 ?e) ?e (fst (codegen_system ?e)) (snd (codegen_system ?e))
               ([?s1] @ ?s2 # []) = (fst ?rw, fst (snd ?rw), True)"
    using echo_twice_workflow by (simp add: twice_workflow_def prod_eq_iff)
  have found: "get_agent (fst (codegen_system ?e)) (snd (codegen_system ?e))
                 (or_empty (step_agent ?s2)) = Some (sample_agent CodeGen ''codegen'')"
    by (simp add: codegen_registry or_empty_def)
  from C5_context_holds_last_output [OF wf _ _ found]
  show ?thesis
    by (simp add: or_empty_def twice_workflow_def)
qed


section \<open>Single tasks over IPC\<close>

text \<open>
  Claim C10. When \<^verbatim>\<open>handle_ipc\<close> is called with an agent type that is not in the registry, it
  returns the text \<^verbatim>\<open>[ERROR] Agent '<agentType>' not found for IPC task.\<close> as its ordinary
  result, and the HTTP handler wraps that text in a \<^verbatim>\<open>result\<close> response, not in an
  \<^verbatim>\<open>error\<close> response.
\<close>

theorem C10_unknown_agent_is_a_result:
  assumes "get_agent h orch agent_type = None"
  shows "handle_ipc run h orch agent_type task =
           ([], Some (''[ERROR] Agent '' @ [CHR 0x27] @ agent_type @ [CHR 0x27]
                        @ '' not found for IPC task.''))
         \<and> ipc_handler run h orch (Inr (Some agent_type, Some task)) =
           ([], Some (Result (''[ERROR] Agent '' @ [CHR 0x27] @ agent_type @ [CHR 0x27]
                                @ '' not found for IPC task.'')))"
  using assms by (simp add: handle_ipc_def ipc_handler_def sq_def)

theorem C10_unknown_agent_witness:
  "handle_ipc (agent_run 1 (stub_env (\<lambda>k t. []) ''{}''))
      (fst (sample_system (stub_env (\<lambda>k t. []) ''{}'')))
      (snd (sample_system (stub_env (\<lambda>k t. []) ''{}''))) ''ghost'' ''hello'' =
     ([], Some ''[ERROR] Agent 'ghost' not found for IPC task.'')
   \<and> ipc_handler (agent_run 1 (stub_env (\<lambda>k t. []) ''{}''))
      (fst (sample_system (stub_env (\<lambda>k t. []) ''{}'')))
      (snd (sample_system (stub_env (\<lambda>k t. []) ''{}''))) (Inr (Some ''ghost'', Some ''hello'')) =
     ([], Some (Result ''[ERROR] Agent 'ghost' not found for IPC task.''))"
  using C10_unknown_agent_is_a_result
          [of "fst (sample_system (stub_env (\<lambda>k t. []) ''{}''))"
              "snd (sample_system (stub_env (\<lambda>k t. []) ''{}''))" "''ghost''"
              "agent_run 1 (stub_env (\<lambda>k t. []) ''{}'')" "''hello''"]
  by (simp add: sample_registry)

lemma codegen_system_context [simp]: "orch_context (snd (codegen_system e)) = Map.empty"
  by (simp add: codegen_system_def init_def Let_def)

text \<open>
  Claim C9. For a registered agent type, \<^verbatim>\<open>handle_ipc\<close> returns exactly the
  concatenation, in emission order, of the chunks of the agent's stream that do not start
  with \<^verbatim>\<open>STREAM_CHUNK:\<close>, when the stream ends without raising; when the stream raises,
  the error comes back as data: the text
  \<^verbatim>\<open>[ERROR] Unhandled exception in IPC for agent '<name>': <message>\<close> is returned as the
  result; a stream that never ends gives no return. Whatever \<^verbatim>\<open>handle_ipc\<close> returns, the
  HTTP handler answers with it under \<^verbatim>\<open>result\<close>, and a request that cannot be read is
  answered under \<^verbatim>\<open>error\<close>: errors are data, never raised. With the six agents of the
  program the stream always ends or raises, so \<^verbatim>\<open>handle_ipc\<close> always returns.
\<close>

theorem C9_ipc_returns_payload_or_error_text:
  assumes "get_agent h orch agent_type = Some ag"
  shows "(\<forall>evs. run ag task (orch_context orch) = (evs, Completed) \<longrightarrow>
            snd (handle_ipc run h orch agent_type task)
              = Some (concat (filter (\<lambda>c. \<not> is_progress c) (chunks evs))))
       \<and> (\<forall>evs ex. run ag task (orch_context orch) = (evs, Raised ex) \<longrightarrow>
            snd (handle_ipc run h orch agent_type task)
              = Some (''[ERROR] Unhandled exception in IPC for agent '' @ [CHR 0x27] @ name ag
                        @ [CHR 0x27] @ '': '' @ exn_str ex))
       \<and> (\<forall>evs. run ag task (orch_context orch) = (evs, Unfinished) \<longrightarrow>
            snd (handle_ipc run h orch agent_type task) = None)
       \<and> snd (ipc_handler run h orch (Inr (Some agent_type, Some task)))
            = map_option Result (snd (handle_ipc run h orch agent_type task))
       \<and> ipc_handler run h orch (Inl ex') = ([], Some (Error (exn_str ex')))
       \<and> snd (handle_ipc (agent_run n e) h orch agent_type task) \<noteq> None"
proof -
  have "snd (handle_ipc (agent_run n e) h orch agent_type task) \<noteq> None"
    using assms agent_run_ends [of n e ag task "orch_context orch"]
    by (cases "agent_run n e ag task (orch_context orch)";
        cases "snd (agent_run n e ag task (orch_context orch))")
       (simp_all add: handle_ipc_def)
  moreover have "(\<forall>evs. run ag task (orch_context orch) = (evs, Completed) \<longrightarrow>
            snd (handle_ipc run h orch agent_type task)
              = Some (concat (filter (\<lambda>c. \<not> is_progress c) (chunks evs))))
       \<and> (\<forall>evs ex. run ag task (orch_context orch) = (evs, Raised ex) \<longrightarrow>
            snd (handle_ipc run h orch agent_type task)
              = Some (''[ERROR] Unhandled exception in IPC for agent '' @ [CHR 0x27] @ name ag
                        @ [CHR 0x27] @ '': '' @ exn_str ex))
       \<and> (\<forall>evs. run ag task (orch_context orch) = (evs, Unfinished) \<longrightarrow>
            snd (handle_ipc run h orch agent_type task) = None)
       \<and> snd (ipc_handler run h orch (Inr (Some agent_type, Some task)))
            = map_option Result (snd (handle_ipc run h orch agent_type task))
       \<and> ipc_handler run h orch (Inl ex') = ([], Some (Error (exn_str ex')))"
    using assms
    by (cases "handle_ipc run h orch agent_type task";
        cases "snd (handle_ipc run h orch agent_type task)")
       (auto simp: handle_ipc_def ipc_handler_def payload_chunks_def sq_def)
  ultimately show ?thesis by blast
qed

theorem C9_ipc_returns_payload_or_error_text_witness:
  "get_agent (fst (codegen_system (stub_env echo ''{}''))) (snd (codegen_system (stub_env echo ''{}'')))
      ''codegen'' = Some (sample_agent CodeGen ''codegen'')
   \<and> snd (handle_ipc (agent_run 1 (stub_env echo ''{}'')) (fst (codegen_system (stub_env echo ''{}'')))
        (snd (codegen_system (stub_env echo ''{}''))) ''codegen'' ''A'') = Some ''# A''
   \<and> snd (ipc_handler (agent_run 1 (stub_env echo ''{}'')) (fst (codegen_system (stub_env echo ''{}'')))
        (snd (codegen_system (stub_env echo ''{}''))) (Inr (Some ''codegen'', Some ''A'')))
       = Some (Result ''# A'')"
proof -
  let ?e = "stub_env echo ''{}''"
  have found: "get_agent (fst (codegen_system ?e)) (snd (codegen_system ?e)) ''codegen''
                 = Some (sample_agent CodeGen ''codegen'')"
    by (simp add: codegen_registry)
  have run: "agent_run 1 ?e (sample_agent CodeGen ''codegen'') ''A''
               (orch_context (snd (codegen_system ?e)))
             = (fst (agent_run 1 ?e (sample_agent CodeGen ''codegen'') ''A'' Map.empty), Completed)"
    by (simp add: echo_codegen_run del: One_nat_def)
  have pay: "concat (filter (\<lambda>c. \<not> is_progress c)
               (chunks (fst (agent_run 1 ?e (sample_agent CodeGen ''codegen'') ''A'' Map.empty))))
             = ''# A''"
    by (simp add: echo_codegen_run del: One_nat_def)
  from C9_ipc_returns_payload_or_error_text [OF found, of "agent_run 1 ?e" "''A''" _ 1 ?e]
    run pay found
  show ?thesis by simp
qed


section \<open>Reloading the agents\<close>

lemma load_loop_loaded:
  "loaded e all reg \<Longrightarrow> set agent_configs \<subseteq> set all \<Longrightarrow>
   loaded e all (load_loop e agent_configs reg)"
proof (induction agent_configs arbitrary: reg)
  case Nil
  then show ?case by simp
next
  case (Cons p agent_configs)
  obtain agent_name cfg where p: "p = (agent_name, cfg)" by (cases p)
  show ?case
  proof (cases "agent_class_map agent_name")
    case None
    with Cons p show ?thesis by simp
  next
    case (Some k)
    let ?a = "\<lparr>kind = k, name = agent_name, config = cfg, websocket_manager = True\<rparr>"
    show ?thesis
    proof (cases "agent_base_init e ?a")
      case None
      have "loaded e all (reg(agent_name \<mapsto> ?a))"
        using Cons.prems Some None p by (auto simp: loaded_def)
      with Cons Some None p show ?thesis by simp
    next
      case (Some ex)
      with Cons p \<open>agent_class_map agent_name = Some k\<close> show ?thesis by simp
    qed
  qed
qed

text \<open>
  Claim C8, amended: \<^verbatim>\<open>reload_config\<close> rebuilds the registry in place. The orchestrator
  and its reference to the registry are unchanged, no other object of the heap changes, and
  the dictionary the reference denotes is cleared and refilled from the configuration with
  freshly built agents of the known classes (it is left as it was when the configuration
  is empty). Whoever holds the old reference sees the rebuilt contents.
\<close>

theorem C8_reload_mutates_in_place:
  assumes "reload_config e agent_configs h orch = (h', orch')"
  shows "orch' = orch
       \<and> (\<forall>r. r \<noteq> orch_agents orch \<longrightarrow> h' r = h r)
       \<and> h' (orch_agents orch) =
           (if agent_configs = [] then h (orch_agents orch)
            else load_loop e agent_configs Map.empty)
       \<and> (agent_configs \<noteq> [] \<longrightarrow> loaded e agent_configs (h' (orch_agents orch)))"
proof -
  have "loaded e agent_configs (load_loop e agent_configs Map.empty)"
    by (rule load_loop_loaded) (simp_all add: loaded_def)
  with assms show ?thesis
    by (auto simp: reload_config_def load_agents_def)
qed

lemma sample_heap:
  "fst (sample_system (stub_env llm txt)) (orch_agents (snd (sample_system (stub_env llm txt)))) a =
     (if a = ''codegen'' then Some (sample_agent CodeGen ''codegen'')
      else if a = ''test'' then Some (sample_agent Test ''test'') else None)"
  using sample_registry [of llm _ a] by (simp add: get_agent_def)

lemma sample_reload_doc:
  "reload_config (stub_env echo ''{}'') [(''doc'', Map.empty)]
      (fst (sample_system (stub_env echo ''{}''))) (snd (sample_system (stub_env echo ''{}'')))
   = ((fst (sample_system (stub_env echo ''{}'')))
        (orch_agents (snd (sample_system (stub_env echo ''{}'')))
           := [''doc'' \<mapsto> sample_agent Doc ''doc'']),
      snd (sample_system (stub_env echo ''{}'')))"
  by (simp add: reload_config_def load_agents_def agent_class_map_def sample_agent_def)

text \<open>
  Claim C8, as stated: reloading replaces the registry reference and leaves the old
  registry as it was. It does not: after a reload with a configuration that lists only
  \<^verbatim>\<open>doc\<close>, the orchestrator's reference is the one it had before, and a lookup of
  \<^verbatim>\<open>codegen\<close> through that reference, which found the agent before the reload, finds
  nothing.
\<close>

theorem C8_counterexample:
  "orch_agents (snd (reload_config (stub_env echo ''{}'') [(''doc'', Map.empty)]
      (fst (sample_system (stub_env echo ''{}''))) (snd (sample_system (stub_env echo ''{}'')))))
     = orch_agents (snd (sample_system (stub_env echo ''{}'')))
   \<and> fst (sample_system (stub_env echo ''{}''))
         (orch_agents (snd (sample_system (stub_env echo ''{}'')))) ''codegen''
     = Some (sample_agent CodeGen ''codegen'')
   \<and> fst (reload_config (stub_env echo ''{}'') [(''doc'', Map.empty)]
      (fst (sample_system (stub_env echo ''{}''))) (snd (sample_system (stub_env echo ''{}''))))
         (orch_agents (snd (sample_system (stub_env echo ''{}'')))) ''codegen''
     = None"
  by (simp add: sample_reload_doc sample_heap)

theorem C8_reload_mutates_in_place_witness:
  "snd (reload_config (stub_env echo ''{}'') [(''doc'', Map.empty)]
      (fst (sample_system (stub_env echo ''{}''))) (snd (sample_system (stub_env echo ''{}''))))
     = snd (sample_system (stub_env echo ''{}''))
   \<and> fst (reload_config (stub_env echo ''{}'') [(''doc'', Map.empty)]
      (fst (sample_system (stub_env echo ''{}''))) (snd (sample_system (stub_env echo ''{}''))))
         (orch_agents (snd (sample_system (stub_env echo ''{}''))))
     = [''doc'' \<mapsto> sample_agent Doc ''doc'']
   \<and> loaded (stub_env echo ''{}'') [(''doc'', Map.empty)] [''doc'' \<mapsto> sample_agent Doc ''doc'']"
  using C8_reload_mutates_in_place [OF sample_reload_doc]
  by (simp add: sample_reload_doc agent_class_map_def sample_agent_def)

section \<open>Chunk tagging\<close>


lemma written_append [simp]: "written (xs @ ys) = written xs @ written ys"
  by (induction xs rule: written.induct) simp_all

lemma fst_ret [simp]: "fst (ret x) = []" "snd (ret x) = Inr x"
  by (simp_all add: ret_def)

lemma fst_raise [simp]: "fst (py_raise ex) = []" "snd (py_raise ex) = Inl ex"
  by (simp_all add: py_raise_def)

lemma fst_lift [simp]: "fst (lift r) = []" "snd (lift r) = r"
  by (simp_all add: lift_def)

lemma fst_say [simp]: "fst (say ag msg) = [Yield (progress (name ag) msg)]" "snd (say ag msg) = Inr ()"
  by (simp_all add: say_def)

lemma fst_bind:
  "fst (bind m f) = fst m @ (case snd m of Inl ex \<Rightarrow> [] | Inr x \<Rightarrow> fst (f x))"
  by (cases m; cases "snd m") (auto simp: bind_def split: prod.splits)

lemma silent_bind:
  "fst (bind m f) = [] \<longleftrightarrow> fst m = [] \<and> (\<forall>x. snd m = Inr x \<longrightarrow> fst (f x) = [])"
  by (cases m; cases "snd m") (auto simp: bind_def split: prod.splits)

lemma fst_buffer [simp]: "fst (buffer_llm e ag prompt task ctx) = []"
  by (simp add: buffer_llm_def split: prod.splits option.splits)

lemma fst_validate [simp]: "fst (validate_response e ag r task ctx) = []"
  by (simp add: validate_response_def silent_bind)

lemma fst_read [simp]: "fst (read_file e ag i w t ctx) = []"
  by (simp add: read_file_def)

lemma fst_output_location [simp]: "fst (output_location ctx d) = []"
  by (simp add: output_location_def Let_def)

lemma fst_doc_prepare [simp]: "fst (doc_prepare e ag task ctx op) = []"
  by (simp add: doc_prepare_def Let_def silent_bind)

lemma fst_fix_prepare [simp]: "fst (fix_prepare e ag task ctx op) = []"
  by (simp add: fix_prepare_def Let_def silent_bind)

lemma fst_qa_prepare [simp]: "fst (qa_prepare e ag task ctx op) = []"
  by (simp add: qa_prepare_def qa_code_to_analyze_def qa_optional_read_def Let_def silent_bind
        split: prod.splits)

lemma persist_Inr:
  "snd (persist e ag c details r w) = Inr fid \<Longrightarrow>
   written (fst (persist e ag c details r w)) = [r] \<and> chunks (fst (persist e ag c details r w)) = []"
  by (cases details; cases c)
     (auto simp: persist_def write_file_def update_file_def act_norm split: sum.splits)

lemma persist_written [simp]:
  "\<not> isl (snd (persist e ag c details r w)) \<Longrightarrow> written (fst (persist e ag c details r w)) = [r]"
  "\<not> isl (snd (persist e ag c details r w)) \<Longrightarrow> chunks (fst (persist e ag c details r w)) = []"
  using persist_Inr [of e ag c details r w]
  by (cases "snd (persist e ag c details r w)"; simp)+

lemma gives_say [simp]: "gives Q (say ag msg) = Q [Yield (progress (name ag) msg)] ()"
  by (auto simp: gives_def)

lemma gives_case_option:
  "(x = None \<Longrightarrow> gives Q a) \<Longrightarrow> (\<And>y. x = Some y \<Longrightarrow> gives Q (f y)) \<Longrightarrow>
   gives Q (case x of None \<Rightarrow> a | Some y \<Rightarrow> f y)"
  by (cases x) simp_all


lemma answersI:
  "snd (buffer_llm e ag prompt task ctx) = Inr r \<Longrightarrow>
   snd (validate_response e ag r task ctx) = Inr u \<Longrightarrow> answers e ag task ctx r"
  unfolding answers_def
  by (metis buffer_llm_Inr validate_response_Inr)

lemma answers_validated: "answers e ag task ctx r \<Longrightarrow> validated e ag ctx r"
  unfolding answers_def validated_def
  by (metis same_kind)

lemma planner_body_stored: "gives (stored e ag task ctx True) (planner_body e ag task ctx)"
  unfolding planner_body_def
  by (intro gives_bind gives_if; auto simp: stored_def artifact_def intro: answersI)

lemma doc_body_stored: "gives (stored e ag task ctx True) (doc_body e ag task ctx)"
  unfolding doc_body_def Let_def
  by (intro gives_bind gives_if gives_case_prod; auto simp: stored_def artifact_def intro: answersI)

lemma fix_body_stored: "gives (stored e ag task ctx True) (fix_body e ag task ctx)"
  unfolding fix_body_def Let_def
  by (intro gives_bind gives_if gives_case_prod; auto simp: stored_def artifact_def intro: answersI)

lemma codegen_body_stored: "gives (stored e ag task ctx False) (codegen_body e ag task ctx)"
  unfolding codegen_body_def
  by (intro gives_bind gives_if; auto simp: stored_def artifact_def intro: answersI)

lemma bind_case_option:
  "bind (case x of None \<Rightarrow> a | Some y \<Rightarrow> f y) g =
     (case x of None \<Rightarrow> bind a g | Some y \<Rightarrow> bind (f y) g)"
  by (cases x) simp_all

lemma bind_if: "bind (if c then a else b) g = (if c then bind a g else bind b g)"
  by simp

lemma qa_body_stored: "gives (stored e ag task ctx False) (qa_body e ag task ctx)"
  unfolding qa_body_def Let_def
  apply (simp only: bind_case_option bind_if bind_assoc bind_ret bind_raise)
  apply (intro gives_bind gives_if gives_case_prod gives_case_option;
         auto simp: stored_def artifact_def intro: answersI)
  done

lemma lifecycle_stored:
  "kind ag \<noteq> Test \<Longrightarrow>
   gives (stored e ag task ctx (kind ag \<in> {Doc, Fix, Planner})) (lifecycle n e ag task ctx)"
  using codegen_body_stored [of e ag task ctx] qa_body_stored [of e ag task ctx]
    doc_body_stored [of e ag task ctx] fix_body_stored [of e ag task ctx]
    planner_body_stored [of e ag task ctx]
  by (cases "kind ag") (simp_all add: lifecycle_def)

lemma agent_run_lifecycle:
  assumes "update_context e ag ctx = None" and "kind ag \<noteq> Test"
    and "lifecycle n e ag task ctx = (evs, Inr ())"
  shows "\<exists>msg. agent_run n e ag task ctx = (Yield (progress (name ag) msg) # evs, Completed)"
  using assms
  by (cases "kind ag")
     (simp_all add: agent_run_def lifecycle_def codegen_run_def doc_run_def planner_run_def
        qa_run_def guarded_Inr [OF assms(1)], blast+)

lemma concat_payload_one:
  "concat (filter (\<lambda>c. \<not> is_progress c) [r]) = (if is_progress r then [] else r)"
  by simp

lemma persist_stub:
  "persist (stub_env llm txt) ag True (CreateOp filename parent) r w =
     ([WriteFile filename r parent], Inr (PStr ''file-1''))"
  by (simp add: persist_def write_file_def act_norm)

lemma test_run_success:
  assumes "update_context e ag ctx = None"
    and "dict_get ctx ''operation_type'' (PStr ''generate_tests'') = PStr ''generate_tests''"
    and "test_prepare e ag task ctx = ([], Inr (prompt, details))"
    and "execute_llm_workflow e ag prompt task ctx = (buffered, None)"
    and "\<not> response_invalid (concat buffered)"
    and "enforce_agent_rules e ag (concat buffered) task ctx = Inr []"
    and "persist e ag True details (concat buffered) [] = (evs, Inr file_id)"
    and "truthy file_id"
  shows "test_run n e ag task ctx =
     ((if websocket_manager ag
       then [Send (progress (name ag) (tag ag @ '' Starting operation: generate_tests...''))]
       else [])
      @ evs @ [Yield (concat buffered),
               Yield (newline @ ''[SUCCESS] Output saved to GDrive file ID: '' @ py_str file_id)],
      Completed)"
  using assms
  by (simp add: test_run_def test_body_def Let_def buffer_llm_def act_norm)

lemma test_stub_success:
  "agent_run n (stub_env steady txt) (sample_agent Test ''test'') ''T'' drive_ctx =
     ([Send (progress ''test'' ''[test] Starting operation: generate_tests...''),
       WriteFile (PStr ''test_generated.py'') ''ok'' (PStr ''d1''),
       Yield ''ok'',
       Yield (newline @ ''[SUCCESS] Output saved to GDrive file ID: file-1'')], Completed)"
  by (simp add: agent_run_def
        test_run_success [OF _ _ test_prepare_stub, where buffered = "[''ok'']"
                            and evs = "[WriteFile (PStr ''test_generated.py'') ''ok'' (PStr ''d1'')]"
                            and file_id = "PStr ''file-1''"]
        persist_stub steady_def tag_def)

lemma valid_tagged [simp]: "\<not> response_invalid ''STREAM_CHUNK:x''"
  by (simp add: response_invalid_def strip_def isspace_def)

lemma planner_stub:
  "concat (llm Planner ''T'') = r \<Longrightarrow> \<not> response_invalid r \<Longrightarrow>
   planner_body (stub_env llm txt) (sample_agent Planner ''planner'') ''T'' drive_ctx =
     ([Yield (progress ''planner'' ''[planner] Constructing prompt...''),
       Yield (progress ''planner'' ''[planner] Generating plan...''),
       Yield (progress ''planner'' ''[planner] Validating plan...''),
       Yield (progress ''planner'' ''[planner] Validation passed. Saving plan to Google Drive...''),
       WriteFile (PStr ''plan.md'') r (PStr ''d1''),
       Yield r,
       Yield (progress ''planner'' ''[SUCCESS] [planner] Plan saved to GDrive file ID: file-1'')],
      Inr ())"
  by (simp add: planner_body_def output_location_def Let_def buffer_llm_def validate_response_def
        persist_stub tag_def act_norm)

lemma sample_chunk_classes [simp]:
  "is_progress ''STREAM_CHUNK:x''" "\<not> is_progress ''ok''"
  "\<not> is_progress (newline @ ''[SUCCESS] Output saved to GDrive file ID: file-1'')"
  by (simp_all add: is_progress_def startswith_def newline_def)

text \<open>
  Claim C4, as stated: concatenating the payload chunks of a successful run gives the
  artifact written to storage. A Test agent that generates tests writes the LLM response
  \<open>ok\<close> and ends without an exception, but after the response its stream carries the
  line that reports the file id, which has no \<^verbatim>\<open>STREAM_CHUNK:\<close> prefix: the payload
  is the response followed by that line. A Planner agent whose validated response itself
  starts with \<^verbatim>\<open>STREAM_CHUNK:\<close> writes it to storage, and the payload of its run is
  empty.
\<close>

theorem C4_counterexample:
  "(let run = agent_run 0 (stub_env steady drive_ctx_text) (sample_agent Test ''test'') ''T'' drive_ctx
    in snd run = Completed
     \<and> written (fst run) = [''ok'']
     \<and> concat (payload_chunks (fst run))
           = ''ok'' @ newline @ ''[SUCCESS] Output saved to GDrive file ID: file-1''
     \<and> concat (payload_chunks (fst run)) \<noteq> ''ok'')
   \<and> (let run = agent_run 0 (stub_env tagged drive_ctx_text) (sample_agent Planner ''planner'')
                  ''T'' drive_ctx
      in snd run = Completed
       \<and> written (fst run) = [''STREAM_CHUNK:x'']
       \<and> concat (payload_chunks (fst run)) = [])"
proof -
  have "agent_run 0 (stub_env tagged drive_ctx_text) (sample_agent Planner ''planner'') ''T'' drive_ctx
          = (Yield (progress ''planner'' (''[planner] Starting planning task: T''))
             # fst (planner_body (stub_env tagged drive_ctx_text) (sample_agent Planner ''planner'')
                      ''T'' drive_ctx), Completed)"
    by (simp add: agent_run_def planner_run_def tag_def guarded_def tagged_def
          planner_stub [where r = "''STREAM_CHUNK:x''"])
  then show ?thesis
    by (auto simp: test_stub_success planner_stub [where r = "''STREAM_CHUNK:x''"] tagged_def
          payload_chunks_def)
qed

text \<open>
  Claim C4, amended: a chunk is progress exactly when it has the prefix
  \<^verbatim>\<open>STREAM_CHUNK:\<close>, and the orchestrator's accumulated output is the concatenation of
  the payload chunks in emission order. For an agent of any class but Test whose lifecycle
  ends without an exception, one chunk of the run is the validated response of the run (the
  whole of the stream the LLM gave this agent for this task, which passed validation and
  rule enforcement); every file operation of the run stores exactly that response (there is
  exactly one for the Doc, Fix and Planner agents); and the concatenated payload of the run
  is that response, unless the response itself starts with \<^verbatim>\<open>STREAM_CHUNK:\<close>, in which
  case the payload is empty.
\<close>

theorem C4_payload_is_the_artifact:
  assumes "update_context e ag ctx = None" and "kind ag \<noteq> Test"
    and "snd (lifecycle n e ag task ctx) = Inr ()"
  shows "(\<forall>c. is_progress c = prefix ''STREAM_CHUNK:'' c)
       \<and> accumulate (fst (agent_run n e ag task ctx))
            = concat (payload_chunks (fst (agent_run n e ag task ctx)))
       \<and> (\<exists>response.
             answers e ag task ctx response
           \<and> response \<in> set (chunks (fst (agent_run n e ag task ctx)))
           \<and> snd (agent_run n e ag task ctx) = Completed
           \<and> set (written (fst (agent_run n e ag task ctx))) \<subseteq> {response}
           \<and> (kind ag \<in> {Doc, Fix, Planner}
                \<longrightarrow> written (fst (agent_run n e ag task ctx)) = [response])
           \<and> concat (payload_chunks (fst (agent_run n e ag task ctx)))
               = (if is_progress response then [] else response))"
proof -
  obtain evs where l: "lifecycle n e ag task ctx = (evs, Inr ())"
    using assms(3) by (cases "lifecycle n e ag task ctx") simp
  from agent_run_lifecycle [OF assms(1,2) l]
  obtain msg where r: "agent_run n e ag task ctx = (Yield (progress (name ag) msg) # evs, Completed)"
    by blast
  from lifecycle_stored [OF assms(2), of e task ctx n] l
  have "stored e ag task ctx (kind ag \<in> {Doc, Fix, Planner}) evs ()"
    by (simp add: gives_def)
  then obtain response where v: "answers e ag task ctx response"
    and c: "response \<in> set (chunks evs)" and a: "artifact response evs"
    and m: "kind ag \<in> {Doc, Fix, Planner} \<longrightarrow> written evs = [response]"
    unfolding stored_def by blast
  from a have "set (written evs) \<subseteq> {response}"
    and "concat (payload_chunks evs) = (if is_progress response then [] else response)"
    unfolding artifact_def payload_chunks_def by (simp_all only: concat_payload_one)
  with m v c have "\<exists>response.
             answers e ag task ctx response
           \<and> response \<in> set (chunks (fst (agent_run n e ag task ctx)))
           \<and> snd (agent_run n e ag task ctx) = Completed
           \<and> set (written (fst (agent_run n e ag task ctx))) \<subseteq> {response}
           \<and> (kind ag \<in> {Doc, Fix, Planner}
                \<longrightarrow> written (fst (agent_run n e ag task ctx)) = [response])
           \<and> concat (payload_chunks (fst (agent_run n e ag task ctx)))
               = (if is_progress response then [] else response)"
    unfolding r by (intro exI [of _ response]) (simp add: payload_chunks_def)
  then show ?thesis
    by (simp add: is_progress_def startswith_def accumulate_payload)
qed

theorem C4_payload_is_the_artifact_witness:
  "(update_context (stub_env steady drive_ctx_text) (sample_agent Planner ''planner'') drive_ctx = None
    \<and> kind (sample_agent Planner ''planner'') \<noteq> Test
    \<and> snd (lifecycle 0 (stub_env steady drive_ctx_text) (sample_agent Planner ''planner'') ''T''
             drive_ctx) = Inr ())
   \<and> (\<forall>c. is_progress c = prefix ''STREAM_CHUNK:'' c)
   \<and> accumulate (fst (agent_run 0 (stub_env steady drive_ctx_text) (sample_agent Planner ''planner'')
                        ''T'' drive_ctx))
        = concat (payload_chunks (fst (agent_run 0 (stub_env steady drive_ctx_text)
                    (sample_agent Planner ''planner'') ''T'' drive_ctx)))
   \<and> (\<exists>response.
         answers (stub_env steady drive_ctx_text) (sample_agent Planner ''planner'') ''T'' drive_ctx
           response
       \<and> response \<in> set (chunks (fst (agent_run 0 (stub_env steady drive_ctx_text)
                 (sample_agent Planner ''planner'') ''T'' drive_ctx)))
       \<and> snd (agent_run 0 (stub_env steady drive_ctx_text) (sample_agent Planner ''planner'') ''T''
                drive_ctx) = Completed
       \<and> set (written (fst (agent_run 0 (stub_env steady drive_ctx_text)
                 (sample_agent Planner ''planner'') ''T'' drive_ctx))) \<subseteq> {response}
       \<and> (kind (sample_agent Planner ''planner'') \<in> {Doc, Fix, Planner}
            \<longrightarrow> written (fst (agent_run 0 (stub_env steady drive_ctx_text)
                    (sample_agent Planner ''planner'') ''T'' drive_ctx)) = [response])
       \<and> concat (payload_chunks (fst (agent_run 0 (stub_env steady drive_ctx_text)
                    (sample_agent Planner ''planner'') ''T'' drive_ctx)))
           = (if is_progress response then [] else response))"
proof -
  have h: "update_context (stub_env steady drive_ctx_text) (sample_agent Planner ''planner'') drive_ctx
             = None
      \<and> kind (sample_agent Planner ''planner'') \<noteq> Test
      \<and> snd (lifecycle 0 (stub_env steady drive_ctx_text) (sample_agent Planner ''planner'') ''T''
               drive_ctx) = Inr ()"
    by (simp add: lifecycle_def planner_stub [where r = "''ok''"] steady_def)
  note c = C4_payload_is_the_artifact [OF h [THEN conjunct1] h [THEN conjunct2, THEN conjunct1]
             h [THEN conjunct2, THEN conjunct2]]
  from h c show ?thesis by (rule conjI)
qed

section \<open>Run never raises\<close>










lemma not_progress_newline [simp]: "\<not> is_progress (newline @ s)"
  by (simp add: is_progress_def startswith_def newline_def)








end
